theory Spec2Isabelle
  imports Complex_Main "HOL-Library.Sublist"
begin

section \<open>Data model\<close>

text \<open>
  The development embeds the function \<open>velocity\<close> of \<open>scvelo/plotting/velocity.py\<close>.
  Python exceptions are values of the type \<open>error\<close>. \<open>OverflowError\<close> and
  \<open>ZeroDivisionError\<close> are the two subclasses of Python's \<open>ArithmeticError\<close> that the
  function can raise.
\<close>

datatype error =
    ValueError string
  | KeyError string
  | IndexError
  | TypeError
  | OverflowError
  | ZeroDivisionError

fun is_arithmetic_error :: "error \<Rightarrow> bool" where
  "is_arithmetic_error OverflowError = True"
| "is_arithmetic_error ZeroDivisionError = True"
| "is_arithmetic_error _ = False"

text \<open>
  The arguments \<open>var_names\<close>, \<open>groupby\<close>, \<open>groups\<close>, \<open>layers\<close> and \<open>fits\<close> are
  dynamically typed: \<open>None\<close>, one string, or a list of strings.
\<close>

datatype py_arg = PNone | PStr string | PList "string list"

text \<open>
  The annotated data matrix, as far as \<open>velocity\<close> reads it: the gene axis, the per-cell
  annotation columns with their categories, the cached ranking
  \<open>uns['rank_velocity_genes']\<close> (its \<open>params.groupby\<close> and its \<open>names\<close> table), the
  layers (in key order; a layer gives, for a gene, one value per cell), the per-gene
  annotation columns and the number of cells. Floating-point values are idealised as
  reals.
\<close>

record adata =
  ad_var_names :: "string list"
  ad_obs :: "(string \<times> string list) list"
  ad_uns :: "(string \<times> string list list) option"
  ad_layers :: "(string \<times> (string \<Rightarrow> nat \<Rightarrow> real)) list"
  ad_var :: "(string \<times> (string \<Rightarrow> real)) list"
  ad_n_obs :: nat

definition layers_keys :: "adata \<Rightarrow> string list" where
  "layers_keys a = map fst (ad_layers a)"

definition var_keys :: "adata \<Rightarrow> string list" where
  "var_keys a = map fst (ad_var a)"

definition obs_keys :: "adata \<Rightarrow> string list" where
  "obs_keys a = map fst (ad_obs a)"

section \<open>Library functions used by the source\<close>

text \<open>\<open>pd.unique\<close>: a pass over the values with a table of the values already seen.\<close>

fun unique_seen :: "'a list \<Rightarrow> 'a list \<Rightarrow> 'a list" where
  "unique_seen seen [] = []"
| "unique_seen seen (x # xs) =
     (if x \<in> set seen then unique_seen seen xs else x # unique_seen (x # seen) xs)"

definition pd_unique :: "'a list \<Rightarrow> 'a list" where
  "pd_unique xs = unique_seen [] xs"

text \<open>Python's \<open>g in group\<close> on two strings: \<open>g\<close> occurs in \<open>group\<close> as a substring.\<close>

fun str_in :: "string \<Rightarrow> string \<Rightarrow> bool" where
  "str_in g [] = (g = [])"
| "str_in g (c # cs) = (take (length g) (c # cs) = g \<or> str_in g cs)"

text \<open>
  Iterating over an argument: a list gives its elements, a string its characters (as
  one-character strings), \<open>None\<close> is not iterable.
\<close>

fun py_iter :: "py_arg \<Rightarrow> error + string list" where
  "py_iter PNone = Inl TypeError"
| "py_iter (PStr s) = Inr (map (\<lambda>c. [c]) s)"
| "py_iter (PList xs) = Inr xs"

text \<open>
  A list of rows is a two-dimensional array for \<open>np.array\<close> when it is not empty and
  all rows have one length; indexing anything else with two indices raises.
\<close>

definition is_2d :: "'a list list \<Rightarrow> bool" where
  "is_2d rows \<longleftrightarrow> rows \<noteq> [] \<and> list_all (\<lambda>r. length r = length (hd rows)) rows"

text \<open>\<open>names[:, 0]\<close>\<close>

definition column0 :: "'a list list \<Rightarrow> error + 'a list" where
  "column0 rows =
     (if \<not> is_2d rows \<or> hd rows = [] then Inl IndexError else Inr (map hd rows))"

text \<open>\<open>names[idx, :k]\<close> with a boolean mask \<open>idx\<close> over the rows\<close>

definition mask_rows_take :: "'a list list \<Rightarrow> bool list \<Rightarrow> nat \<Rightarrow> error + 'a list list" where
  "mask_rows_take rows idx k =
     (if \<not> is_2d rows \<or> length idx \<noteq> length rows then Inl IndexError
      else Inr (map (take k) (map fst (filter snd (zip rows idx)))))"

section \<open>Gene selection (lines 74 to 88)\<close>

text \<open>
  Modelled from the spec: the ranking collaborator \<open>rank_velocity_genes\<close>, which is not
  part of the source file, is a parameter. For a grouping key it gives the per-group ordered
  gene-name lists that it stores in \<open>adata.uns\<close> as the record array \<open>names\<close>: one field
  for each group, in group order, every field holding the ranked genes of its group. The
  fields of a record array have one length. The ranking is recomputed unless the cached one
  was made for the same grouping key.
\<close>

definition ranked_names :: "adata \<Rightarrow> (string \<Rightarrow> string list list) \<Rightarrow> string \<Rightarrow> string list list" where
  "ranked_names a rank_velocity_genes groupby =
     (case ad_uns a of
        None \<Rightarrow> rank_velocity_genes groupby
      | Some (cached_groupby, names) \<Rightarrow>
          if cached_groupby \<noteq> groupby then rank_velocity_genes groupby else names)"

text \<open>
  \<open>np.array(names.tolist())\<close> (line 77): \<open>tolist\<close> gives the records of the record array,
  one for each rank, so a row of the array holds the genes of one rank and a column the
  ranked genes of one group.
\<close>

definition names_array :: "string list list \<Rightarrow> string list list" where
  "names_array per_group =
     (case per_group of
        [] \<Rightarrow> []
      | first # _ \<Rightarrow>
          map (\<lambda>rank. map (\<lambda>ranked. ranked ! rank) per_group) [0..<length first])"

definition groups_as_list :: "py_arg \<Rightarrow> error + string list" where
  "groups_as_list groups = (case groups of PStr s \<Rightarrow> Inr [s] | _ \<Rightarrow> py_iter groups)"

definition group_var_names ::
  "string list list \<Rightarrow> string list \<Rightarrow> py_arg \<Rightarrow> error + string list" where
  "group_var_names names categories groups =
     (if groups = PNone then column0 names
      else
        (case groups_as_list groups of
           Inl e \<Rightarrow> Inl e
         | Inr gs \<Rightarrow>
             (let idx = map (\<lambda>group. list_ex (\<lambda>g. str_in g group) gs) categories;
                  idx_sum = length (filter id idx)
              in if idx_sum = 0 then Inl OverflowError
                 else
                   (case mask_rows_take names idx (nat \<lfloor>10 / real idx_sum\<rfloor>) of
                      Inl e \<Rightarrow> Inl e
                    | Inr rows \<Rightarrow> Inr (concat rows)))))"

definition explicit_var_names :: "adata \<Rightarrow> py_arg \<Rightarrow> error + string list" where
  "explicit_var_names a var_names =
     (case var_names of
        PNone \<Rightarrow> Inl (ValueError ''No var_names or groups specified.'')
      | PStr s \<Rightarrow> Inr [s]
      | PList vs \<Rightarrow> Inr (filter (\<lambda>v. v \<in> set (ad_var_names a)) vs))"

text \<open>The value of \<open>var_names\<close> before the final \<open>pd.unique\<close>.\<close>

definition candidate_var_names ::
  "adata \<Rightarrow> (string \<Rightarrow> string list list) \<Rightarrow> py_arg \<Rightarrow> py_arg \<Rightarrow> py_arg \<Rightarrow> error + string list" where
  "candidate_var_names a rank_velocity_genes var_names groupby groups =
     (case groupby of
        PStr key \<Rightarrow>
          (case map_of (ad_obs a) key of
             Some categories \<Rightarrow>
               group_var_names (names_array (ranked_names a rank_velocity_genes key))
                 categories groups
           | None \<Rightarrow> explicit_var_names a var_names)
      | _ \<Rightarrow> explicit_var_names a var_names)"

definition select_var_names ::
  "adata \<Rightarrow> (string \<Rightarrow> string list list) \<Rightarrow> py_arg \<Rightarrow> py_arg \<Rightarrow> py_arg \<Rightarrow> error + string list" where
  "select_var_names a rank_velocity_genes var_names groupby groups =
     (case candidate_var_names a rank_velocity_genes var_names groupby groups of
        Inl e \<Rightarrow> Inl e
      | Inr vs \<Rightarrow> Inr (pd_unique vs))"

section \<open>Layer and fit resolution (lines 90 to 96)\<close>

definition phase_keys :: "adata \<Rightarrow> bool \<Rightarrow> string \<times> string" where
  "phase_keys a use_raw =
     (if use_raw \<or> ''Ms'' \<notin> set (layers_keys a) then (''spliced'', ''unspliced'')
      else (''Ms'', ''Mu''))"

definition resolve_layers :: "adata \<Rightarrow> string \<Rightarrow> string \<Rightarrow> py_arg \<Rightarrow> error + string list" where
  "resolve_layers a vkey skey layers =
     (case (if layers = PStr ''all'' then Inr [vkey, skey] else py_iter layers) of
        Inl e \<Rightarrow> Inl e
      | Inr ls \<Rightarrow> Inr (filter (\<lambda>layer. layer \<in> set (layers_keys a) \<or> layer = ''X'') ls))"

definition resolve_fits :: "adata \<Rightarrow> py_arg \<Rightarrow> error + string list" where
  "resolve_fits a fits =
     (case (if fits = PStr ''all'' then Inr (layers_keys a) else py_iter fits) of
        Inl e \<Rightarrow> Inl e
      | Inr fs \<Rightarrow>
          Inr (filter (\<lambda>fit. fit = ''dynamics'' \<or> fit @ ''_gamma'' \<in> set (var_keys a)) fs
               @ [''dynamics'']))"

definition stochastic_fits_of :: "adata \<Rightarrow> string list \<Rightarrow> string list" where
  "stochastic_fits_of a fits =
     filter (\<lambda>fit. ''variance_'' @ fit \<in> set (layers_keys a)) fits"

section \<open>Grid geometry (lines 98 to 101)\<close>

definition nplts_of :: "string list \<Rightarrow> py_arg \<Rightarrow> nat" where
  "nplts_of layers mode =
     1 + length layers + (if mode = PStr ''stochastic'' then 1 else 0) * 2"

definition ncols_or_default :: "nat option \<Rightarrow> nat" where
  "ncols_or_default ncols = (case ncols of None \<Rightarrow> 1 | Some c \<Rightarrow> c)"

text \<open>\<open>int(np.ceil(len(var_names) / ncols))\<close>; dividing by a zero \<open>ncols\<close> raises.\<close>

definition nrows_of :: "nat \<Rightarrow> nat \<Rightarrow> error + nat" where
  "nrows_of n ncols =
     (if ncols = 0 then Inl ZeroDivisionError else Inr (nat \<lceil>real n / real ncols\<rceil>))"

section \<open>Per-gene fit parameters (lines 144, 145 and 155 to 157)\<close>

text \<open>\<open>_adata.var[key]\<close> raises for a key that is no column of \<open>var\<close>.\<close>

definition var_lookup :: "adata \<Rightarrow> string \<Rightarrow> string \<Rightarrow> error + real" where
  "var_lookup a key gene =
     (case map_of (ad_var a) key of
        None \<Rightarrow> Inl (KeyError key)
      | Some column \<Rightarrow> Inr (column gene))"

text \<open>\<open>_adata.var[key] if key in adata.var.keys() else fallback\<close>\<close>

definition var_or :: "adata \<Rightarrow> string \<Rightarrow> string \<Rightarrow> real \<Rightarrow> error + real" where
  "var_or a key gene fallback =
     (if key \<in> set (var_keys a) then var_lookup a key gene else Inr fallback)"

definition offset_of :: "adata \<Rightarrow> string \<Rightarrow> string \<Rightarrow> error + real" where
  "offset_of a fit gene = var_or a (fit @ ''_offset'') gene 0"

definition beta_of :: "adata \<Rightarrow> string \<Rightarrow> string \<Rightarrow> error + real" where
  "beta_of a fit gene = var_or a (fit @ ''_beta'') gene 1"

definition gamma_of :: "adata \<Rightarrow> string \<Rightarrow> string \<Rightarrow> error + real" where
  "gamma_of a fit gene = var_or a (fit @ ''_gamma'') gene 1"

definition offset2_of :: "adata \<Rightarrow> string \<Rightarrow> string \<Rightarrow> error + real" where
  "offset2_of a fit gene = var_or a (fit @ ''_offset2'') gene 0"

section \<open>Rendering (lines 110 to 159)\<close>

text \<open>
  The figure is the sequence of draw calls made on it. A call records the flattened grid
  position of the subplot it goes to and the data it shows: the phase portrait (gene, fit
  names, legend placement), the embedding coloured by a layer (gene, layer, title), the
  scatter of the corrected coordinates (title, x, y) and a dashed line (x, y). Colour maps,
  sizes and axis labels passed through to \<open>scatter\<close> are not recorded.
\<close>

datatype draw =
    ScatterPhase nat string "string list" string
  | ScatterLayer nat string string string
  | ScatterXY nat string "real list" "real list"
  | PlotLine nat "real list" "real list"

fun position :: "draw \<Rightarrow> nat" where
  "position (ScatterPhase p _ _ _) = p"
| "position (ScatterLayer p _ _ _) = p"
| "position (ScatterXY p _ _ _) = p"
| "position (PlotLine p _ _) = p"

text \<open>\<open>_adata.layers[key]\<close>, one value per cell\<close>

definition layer_lookup :: "adata \<Rightarrow> string \<Rightarrow> string \<Rightarrow> error + real list" where
  "layer_lookup a key gene =
     (case map_of (ad_layers a) key of
        None \<Rightarrow> Inl (KeyError key)
      | Some layer \<Rightarrow> Inr (map (layer gene) [0..<ad_n_obs a]))"

definition np_min :: "real list \<Rightarrow> error + real" where
  "np_min xs = (case xs of [] \<Rightarrow> Inl (ValueError ''zero-size array'') | x # r \<Rightarrow> Inr (fold min r x))"

definition np_max :: "real list \<Rightarrow> error + real" where
  "np_max xs = (case xs of [] \<Rightarrow> Inl (ValueError ''zero-size array'') | x # r \<Rightarrow> Inr (fold max r x))"

text \<open>
  \<open>np.linspace(start, stop)\<close>: 50 samples, the first 49 computed from the step, the last
  set to \<open>stop\<close>.
\<close>

definition linspace :: "real \<Rightarrow> real \<Rightarrow> real list" where
  "linspace start stop =
     map (\<lambda>i. real i * ((stop - start) / 49) + start) [0..<49] @ [stop]"

definition corrected_x :: "real \<Rightarrow> real \<Rightarrow> real" where
  "corrected_x s ss = 2 * (ss - s\<^sup>2) - s"

definition corrected_y :: "real \<Rightarrow> real \<Rightarrow> real \<Rightarrow> real \<Rightarrow> real \<Rightarrow> real" where
  "corrected_y s u us offset beta = 2 * (us - u * s) + u + 2 * s * offset / beta"

text \<open>
  The moment collaborator \<open>second_order_moments\<close> is a parameter: for a gene it gives the
  two second-order moments of every cell. The corrected coordinates of lines 146 and 147
  take \<open>offset\<close> and \<open>beta\<close> from the given fit. Lines 144 and 145 read a present column
  without \<open>.values\<close>, as a pandas Series with the one element of the gene; the arithmetic
  of line 147 between the array of the cells and that Series raises \<open>ValueError\<close> when
  there are two or more cells (the wording of the message depends on the pandas version).
\<close>

definition series_length_mismatch :: string where
  "series_length_mismatch = ''Length of values does not match length of index''"

definition stochastic_xy ::
  "adata \<Rightarrow> (string \<Rightarrow> (nat \<Rightarrow> real) \<times> (nat \<Rightarrow> real)) \<Rightarrow> string \<Rightarrow> string \<Rightarrow>
   real list \<Rightarrow> real list \<Rightarrow> error + real list \<times> real list" where
  "stochastic_xy a second_order_moments fit var s u =
     (let ss = map (fst (second_order_moments var)) [0..<ad_n_obs a];
          us = map (snd (second_order_moments var)) [0..<ad_n_obs a]
      in case offset_of a fit var of
           Inl e \<Rightarrow> Inl e
         | Inr offset \<Rightarrow>
             (case beta_of a fit var of
                Inl e \<Rightarrow> Inl e
              | Inr beta \<Rightarrow>
                  if (fit @ ''_offset'' \<in> set (var_keys a) \<or> fit @ ''_beta'' \<in> set (var_keys a))
                     \<and> 2 \<le> ad_n_obs a
                  then Inl (ValueError series_length_mismatch)
                  else
                    Inr (map (\<lambda>(s, ss). corrected_x s ss) (zip s ss),
                         map (\<lambda>(s, u, us). corrected_y s u us offset beta)
                           (zip s (zip u us)))))"

text \<open>\<open>np.linspace(np.min(x), np.max(x) * 1.02)\<close>\<close>

definition xnew_of :: "real list \<Rightarrow> error + real list" where
  "xnew_of x =
     (case np_min x of
        Inl e \<Rightarrow> Inl e
      | Inr lo \<Rightarrow>
          (case np_max x of
             Inl e \<Rightarrow> Inl e
           | Inr hi \<Rightarrow> Inr (linspace lo (hi * 1.02))))"

text \<open>The values \<open>gamma / beta * xnew + offset2 / beta\<close> of one fit (lines 155 to 159).\<close>

definition fit_line :: "adata \<Rightarrow> string \<Rightarrow> real list \<Rightarrow> string \<Rightarrow> error + real list" where
  "fit_line a var xnew fit =
     (case gamma_of a fit var of
        Inl e \<Rightarrow> Inl e
      | Inr gamma \<Rightarrow>
          (case beta_of a fit var of
             Inl e \<Rightarrow> Inl e
           | Inr beta \<Rightarrow>
               (case offset2_of a fit var of
                  Inl e \<Rightarrow> Inl e
                | Inr offset2 \<Rightarrow> Inr (map (\<lambda>t. gamma / beta * t + offset2 / beta) xnew))))"

text \<open>The loop over \<open>stochastic_fits\<close> (line 154): the lines drawn and the error, if any.\<close>

fun fit_lines ::
  "adata \<Rightarrow> nat \<Rightarrow> string \<Rightarrow> real list \<Rightarrow> string list \<Rightarrow> draw list \<times> error option" where
  "fit_lines a pos var xnew [] = ([], None)"
| "fit_lines a pos var xnew (fit # rest) =
     (case fit_line a var xnew fit of
        Inl e \<Rightarrow> ([], Some e)
      | Inr ys \<Rightarrow>
          (case fit_lines a pos var xnew rest of
             (drawn, r) \<Rightarrow> (PlotLine pos xnew ys # drawn, r)))"

text \<open>The stochastic block of one gene (lines 138 to 159).\<close>

definition stochastic_panel ::
  "adata \<Rightarrow> (string \<Rightarrow> (nat \<Rightarrow> real) \<times> (nat \<Rightarrow> real)) \<Rightarrow> string list \<Rightarrow> nat \<Rightarrow> nat \<Rightarrow>
   nat \<Rightarrow> string \<Rightarrow> real list \<Rightarrow> real list \<Rightarrow> draw list \<times> error option" where
  "stochastic_panel a second_order_moments stochastic_fits nplts nlayers v var s u =
     (case stochastic_fits of
        [] \<Rightarrow> ([], Some IndexError)
      | fit # _ \<Rightarrow>
          (case stochastic_xy a second_order_moments fit var s u of
             Inl e \<Rightarrow> ([], Some e)
           | Inr (x, y) \<Rightarrow>
               (let pos = v * nplts + nlayers + 1 in
                case xnew_of x of
                  Inl e \<Rightarrow> ([ScatterXY pos var x y], Some e)
                | Inr xnew \<Rightarrow>
                    (case fit_lines a pos var xnew stochastic_fits of
                       (drawn, r) \<Rightarrow> (ScatterXY pos var x y # drawn, r)))))"

text \<open>The panels of the extra layers of one gene (lines 127 to 136).\<close>

definition layer_panels :: "string list \<Rightarrow> string \<Rightarrow> nat \<Rightarrow> nat \<Rightarrow> string \<Rightarrow> draw list" where
  "layer_panels layers skey nplts v var =
     map (\<lambda>(l, layer).
            ScatterLayer (v * nplts + l + 1) var layer
              (if layer \<in> set [''X'', skey] then ''expression'' else layer))
         (enumerate 0 layers)"

text \<open>
  The body of the loop over the genes (lines 111 to 159), for the gene \<open>var\<close> at index
  \<open>v\<close> of \<open>n\<close> selected genes: the calls made and the error that ended it, if any.
\<close>

definition render_gene ::
  "adata \<Rightarrow> (string \<Rightarrow> (nat \<Rightarrow> real) \<times> (nat \<Rightarrow> real)) \<Rightarrow> py_arg \<Rightarrow> string \<Rightarrow>
   string \<Rightarrow> string \<Rightarrow> string list \<Rightarrow> string list \<Rightarrow> string list \<Rightarrow> nat \<Rightarrow> nat \<Rightarrow> nat \<Rightarrow>
   string \<Rightarrow> draw list \<times> error option" where
  "render_gene a second_order_moments mode legend_loc skey ukey layers fits stochastic_fits
     nplts n v var =
     (if var \<notin> set (ad_var_names a) then ([], Some (KeyError var))
      else
        (case layer_lookup a skey var of
           Inl e \<Rightarrow> ([], Some e)
         | Inr s \<Rightarrow>
             (case layer_lookup a ukey var of
                Inl e \<Rightarrow> ([], Some e)
              | Inr u \<Rightarrow>
                  (let phase = ScatterPhase (v * nplts) var fits
                                 (if int v < int n - 1 then ''none'' else legend_loc);
                       panels = phase # layer_panels layers skey nplts v var
                   in if mode = PStr ''stochastic'' then
                        (case stochastic_panel a second_order_moments stochastic_fits nplts
                                (length layers) v var s u of
                           (drawn, r) \<Rightarrow> (panels @ drawn, r))
                      else (panels, None)))))"

text \<open>The loop over the selected genes (line 110); it ends at the first error.\<close>

fun render_genes ::
  "(nat \<Rightarrow> string \<Rightarrow> draw list \<times> error option) \<Rightarrow> nat \<Rightarrow> string list \<Rightarrow>
   draw list \<times> error option" where
  "render_genes body v [] = ([], None)"
| "render_genes body v (var # rest) =
     (case body v var of
        (drawn, Some e) \<Rightarrow> (drawn, Some e)
      | (drawn, None) \<Rightarrow>
          (case render_genes body (Suc v) rest of
             (drawn', r) \<Rightarrow> (drawn @ drawn', r)))"

section \<open>The entry point\<close>

text \<open>
  The outcome of a call: the grid that was created (rows and columns of the
  \<open>GridSpec\<close>), the draw calls made, and the exception raised, if any.
\<close>

record outcome =
  grid :: "(nat \<times> nat) option"
  drawn :: "draw list"
  raised :: "error option"

definition failed :: "error \<Rightarrow> outcome" where
  "failed e = \<lparr>grid = None, drawn = [], raised = Some e\<rparr>"

definition velocity ::
  "adata \<Rightarrow> (string \<Rightarrow> string list list) \<Rightarrow> (string \<Rightarrow> (nat \<Rightarrow> real) \<times> (nat \<Rightarrow> real)) \<Rightarrow>
   py_arg \<Rightarrow> string \<Rightarrow> py_arg \<Rightarrow> py_arg \<Rightarrow> py_arg \<Rightarrow> py_arg \<Rightarrow> py_arg \<Rightarrow> string \<Rightarrow> bool \<Rightarrow>
   nat option \<Rightarrow> outcome" where
  "velocity a rank_velocity_genes second_order_moments var_names vkey mode fits layers
     groupby groups legend_loc use_raw ncols =
     (case select_var_names a rank_velocity_genes var_names groupby groups of
        Inl e \<Rightarrow> failed e
      | Inr vars \<Rightarrow>
          (case phase_keys a use_raw of
             (skey, ukey) \<Rightarrow>
               (case resolve_layers a vkey skey layers of
                  Inl e \<Rightarrow> failed e
                | Inr ls \<Rightarrow>
                    (case resolve_fits a fits of
                       Inl e \<Rightarrow> failed e
                     | Inr fs \<Rightarrow>
                         (let nplts = nplts_of ls mode;
                              c = ncols_or_default ncols
                          in case nrows_of (length vars) c of
                               Inl e \<Rightarrow> failed e
                             | Inr nrows \<Rightarrow>
                                 (case render_genes
                                         (render_gene a second_order_moments mode legend_loc
                                            skey ukey ls fs (stochastic_fits_of a fs) nplts
                                            (length vars))
                                         0 vars of
                                    (d, r) \<Rightarrow>
                                      \<lparr>grid = Some (nrows, c * nplts), drawn = d,
                                       raised = r\<rparr>))))))"

section \<open>Definitions that follow the specification\<close>

text \<open>
  Line 74: a grouping key is valid when it is a string and names a per-cell annotation.
\<close>

definition valid_groupby :: "adata \<Rightarrow> py_arg \<Rightarrow> bool" where
  "valid_groupby a groupby =
     (case groupby of PStr key \<Rightarrow> key \<in> set (obs_keys a) | _ \<Rightarrow> False)"

text \<open>
  The specification's stable unique: every value is kept where it occurs first, and its
  later occurrences are dropped.
\<close>

fun stable_unique :: "'a list \<Rightarrow> 'a list" where
  "stable_unique [] = []"
| "stable_unique (x # xs) = x # stable_unique (filter (\<lambda>y. y \<noteq> x) xs)"

text \<open>The explicit input treated as a list.\<close>

definition input_as_list :: "py_arg \<Rightarrow> string list" where
  "input_as_list v = (case v of PNone \<Rightarrow> [] | PStr s \<Rightarrow> [s] | PList vs \<Rightarrow> vs)"

text \<open>
  The specification's explicit selection: the input as a list, filtered to the genes of
  the dataset, deduplicated in first-occurrence order.
\<close>

definition spec_explicit_selection :: "string list \<Rightarrow> py_arg \<Rightarrow> string list" where
  "spec_explicit_selection genes v =
     stable_unique (filter (\<lambda>g. g \<in> set genes) (input_as_list v))"

text \<open>
  A group matches the requested subset when some requested token is a substring of its
  label.
\<close>

definition group_matches :: "string list \<Rightarrow> string \<Rightarrow> bool" where
  "group_matches tokens label \<longleftrightarrow> (\<exists>g \<in> set tokens. sublist g label)"

text \<open>
  The specification's panel layout: in the panel block of the gene at index \<open>v\<close>, the
  phase portrait is at offset 0, the \<open>l\<close>-th extra layer at offset \<open>l + 1\<close>, and the
  stochastic panel, with its lines, after all layer panels (stochastic mode only).
\<close>

fun in_panel_of :: "bool \<Rightarrow> nat \<Rightarrow> string list \<Rightarrow> nat \<Rightarrow> draw \<Rightarrow> bool" where
  "in_panel_of stochastic nplts ls v (ScatterPhase p _ _ _) = (p = v * nplts)"
| "in_panel_of stochastic nplts ls v (ScatterLayer p _ layer _) =
     list_ex (\<lambda>l. ls ! l = layer \<and> p = v * nplts + l + 1) [0..<length ls]"
| "in_panel_of stochastic nplts ls v (ScatterXY p _ _ _) =
     (stochastic \<and> p = v * nplts + length ls + 1)"
| "in_panel_of stochastic nplts ls v (PlotLine p _ _) =
     (stochastic \<and> p = v * nplts + length ls + 1)"

text \<open>The specification's panel count of one gene.\<close>

definition panels_per_gene :: "string list \<Rightarrow> bool \<Rightarrow> nat" where
  "panels_per_gene ls stochastic = 1 + length ls + (if stochastic then 2 else 0)"

text \<open>
  The specification's corrected coordinates of the cells \<open>0..<n\<close> and its fitted line
  over sampled \<open>x\<close> values.
\<close>

definition spec_x :: "(nat \<Rightarrow> real) \<Rightarrow> (nat \<Rightarrow> real) \<Rightarrow> nat \<Rightarrow> real list" where
  "spec_x s ss n = map (\<lambda>i. 2 * (ss i - (s i)\<^sup>2) - s i) [0..<n]"

definition spec_y ::
  "(nat \<Rightarrow> real) \<Rightarrow> (nat \<Rightarrow> real) \<Rightarrow> (nat \<Rightarrow> real) \<Rightarrow> real \<Rightarrow> real \<Rightarrow> nat \<Rightarrow> real list" where
  "spec_y s u us offset beta n =
     map (\<lambda>i. 2 * (us i - u i * s i) + u i + 2 * s i * offset / beta) [0..<n]"

definition spec_line :: "real \<Rightarrow> real \<Rightarrow> real \<Rightarrow> real list \<Rightarrow> real list" where
  "spec_line gamma beta offset2 xs = map (\<lambda>x. (gamma / beta) * x + offset2 / beta) xs"

text \<open>
  The specification's per-gene fit parameter: the value of the column for the gene, and the
  fallback when the column is absent.
\<close>

definition fit_parameter :: "adata \<Rightarrow> string \<Rightarrow> string \<Rightarrow> real \<Rightarrow> real" where
  "fit_parameter a key var fallback =
     (case map_of (ad_var a) key of None \<Rightarrow> fallback | Some column \<Rightarrow> column var)"

text \<open>The dashed line of one fit for a gene, with the fit's parameters or their fallbacks.\<close>

definition spec_fit_line :: "adata \<Rightarrow> string \<Rightarrow> nat \<Rightarrow> real list \<Rightarrow> string \<Rightarrow> draw" where
  "spec_fit_line a var pos xnew fit =
     PlotLine pos xnew
       (spec_line (fit_parameter a (fit @ ''_gamma'') var 1)
          (fit_parameter a (fit @ ''_beta'') var 1)
          (fit_parameter a (fit @ ''_offset2'') var 0) xnew)"

text \<open>
  The specification's positions of the draw calls of the gene at index \<open>v\<close>, for \<open>p\<close>
  panels per gene and \<open>nl\<close> extra layers: the phase portrait, the layers, and \<open>extra\<close>
  calls (the corrected scatter and the lines) in the stochastic panel.
\<close>

definition panel_positions :: "nat \<Rightarrow> nat \<Rightarrow> nat \<Rightarrow> nat \<Rightarrow> nat list" where
  "panel_positions p nl extra v =
     (v * p) # map (\<lambda>l. v * p + l + 1) [0..<nl] @ replicate extra (v * p + nl + 1)"

text \<open>A dashed line drawn at a grid position.\<close>

fun is_line_at :: "nat \<Rightarrow> draw \<Rightarrow> bool" where
  "is_line_at pos (PlotLine p _ _) = (p = pos)"
| "is_line_at pos _ = False"

section \<open>Example data\<close>

text \<open>
  A dataset of three genes and two cells, grouped by \<open>clusters\<close>, with the layers of a
  steady-state fit \<open>velocity\<close> and its variance layer; every abundance and every
  second-order moment is 1. The ranking gives ten genes for each of the three groups.
\<close>

definition example_adata :: adata where
  "example_adata =
     \<lparr>ad_var_names = [''A'', ''B'', ''C''],
      ad_obs = [(''clusters'', [''alpha'', ''beta'', ''delta''])],
      ad_uns = None,
      ad_layers = [(''spliced'', \<lambda>g i. 1), (''unspliced'', \<lambda>g i. 1),
                   (''velocity'', \<lambda>g i. 0), (''variance_velocity'', \<lambda>g i. 0)],
      ad_var = [(''velocity_gamma'', \<lambda>g. 2)],
      ad_n_obs = 2\<rparr>"

definition example_rank :: "string \<Rightarrow> string list list" where
  "example_rank key =
     [[''A'', ''B'', ''C'', ''a4'', ''a5'', ''a6'', ''a7'', ''a8'', ''a9'', ''a10''],
      [''B'', ''C'', ''A'', ''b4'', ''b5'', ''b6'', ''b7'', ''b8'', ''b9'', ''b10''],
      [''C'', ''A'', ''B'', ''d4'', ''d5'', ''d6'', ''d7'', ''d8'', ''d9'', ''d10'']]"

definition example_moments :: "string \<Rightarrow> (nat \<Rightarrow> real) \<times> (nat \<Rightarrow> real)" where
  "example_moments var = (\<lambda>i. 1, \<lambda>i. 1)"

text \<open>
  The same genes and groups with a second, dynamical fit: both fits have a variance layer,
  the spliced abundance of the two cells is 1 and 2, and the parameters of the fits differ
  from their fallbacks.
\<close>

definition example_adata_dynamics :: adata where
  "example_adata_dynamics =
     \<lparr>ad_var_names = [''A'', ''B'', ''C''],
      ad_obs = [(''clusters'', [''alpha'', ''beta'', ''delta''])],
      ad_uns = None,
      ad_layers = [(''spliced'', \<lambda>g i. real i + 1), (''unspliced'', \<lambda>g i. 1),
                   (''velocity'', \<lambda>g i. 0), (''variance_velocity'', \<lambda>g i. 0),
                   (''variance_dynamics'', \<lambda>g i. 0)],
      ad_var = [(''velocity_gamma'', \<lambda>g. if g = ''A'' then 2 else 6),
                (''dynamics_gamma'', \<lambda>g. 3), (''dynamics_beta'', \<lambda>g. 4),
                (''dynamics_offset2'', \<lambda>g. 8)],
      ad_n_obs = 2\<rparr>"

text \<open>The first dataset with an offset column of its steady-state fit.\<close>

definition example_adata_offset :: adata where
  "example_adata_offset =
     \<lparr>ad_var_names = [''A'', ''B'', ''C''],
      ad_obs = [(''clusters'', [''alpha'', ''beta'', ''delta''])],
      ad_uns = None,
      ad_layers = [(''spliced'', \<lambda>g i. 1), (''unspliced'', \<lambda>g i. 1),
                   (''velocity'', \<lambda>g i. 0), (''variance_velocity'', \<lambda>g i. 0)],
      ad_var = [(''velocity_gamma'', \<lambda>g. 2), (''velocity_offset'', \<lambda>g. 3)],
      ad_n_obs = 2\<rparr>"

section \<open>Properties\<close>

subsection \<open>Stable unique\<close>

lemma unique_seen_filter:
  "unique_seen seen xs = stable_unique (filter (\<lambda>x. x \<notin> set seen) xs)"
proof (induction xs arbitrary: seen)
  case Nil
  show ?case by simp
next
  case (Cons x xs)
  have "filter (\<lambda>y. y \<noteq> x) (filter (\<lambda>y. y \<notin> set seen) xs)
          = filter (\<lambda>y. y \<notin> set (x # seen)) xs"
    by (induction xs) auto
  with Cons show ?case by simp
qed

lemma pd_unique_stable: "pd_unique xs = stable_unique xs"
  by (simp add: pd_unique_def unique_seen_filter)

lemma set_stable_unique: "set (stable_unique xs) = set xs"
  by (induction xs rule: stable_unique.induct) auto

lemma distinct_stable_unique: "distinct (stable_unique xs)"
  by (induction xs rule: stable_unique.induct) (auto simp: set_stable_unique)

subsection \<open>Explicit gene selection\<close>

lemma not_valid_candidate:
  "\<not> valid_groupby a groupby \<Longrightarrow>
   candidate_var_names a rank var_names groupby groups = explicit_var_names a var_names"
proof (cases groupby)
  case (PStr key)
  assume "\<not> valid_groupby a groupby"
  with PStr have "map_of (ad_obs a) key = None"
    by (simp add: valid_groupby_def obs_keys_def map_of_eq_None_iff)
  with PStr show ?thesis by (simp add: candidate_var_names_def)
qed (simp_all add: candidate_var_names_def)

text \<open>
  C1, as stated, fails: a single string is wrapped into a list without the presence
  filter (line 85), so a string that names no gene of the dataset is selected, where the
  claim's filter would drop it.
\<close>

theorem explicit_string_unfiltered:
  "select_var_names example_adata example_rank (PStr ''D'') PNone PNone
     \<noteq> Inr (spec_explicit_selection (ad_var_names example_adata) (PStr ''D''))"
  by (simp add: select_var_names_def candidate_var_names_def explicit_var_names_def
      pd_unique_def spec_explicit_selection_def input_as_list_def example_adata_def)

text \<open>
  C1, amended: when no valid grouping key is supplied, the selection for a list of
  strings, and for a single string that names a gene of the dataset, is the input treated
  as a list, filtered to the genes of the dataset and deduplicated in first-occurrence
  order.
\<close>

theorem explicit_selection:
  assumes "\<not> valid_groupby a groupby"
  shows "select_var_names a rank (PList vs) groupby groups
           = Inr (spec_explicit_selection (ad_var_names a) (PList vs))
       \<and> (s \<in> set (ad_var_names a) \<longrightarrow>
            select_var_names a rank (PStr s) groupby groups
              = Inr (spec_explicit_selection (ad_var_names a) (PStr s)))"
  using assms
  by (simp add: select_var_names_def not_valid_candidate explicit_var_names_def
      spec_explicit_selection_def input_as_list_def pd_unique_stable)

theorem explicit_selection_witness:
  "\<not> valid_groupby example_adata PNone
   \<and> ''B'' \<in> set (ad_var_names example_adata)
   \<and> select_var_names example_adata example_rank (PList [''B'', ''B'', ''D'', ''A'']) PNone PNone
       = Inr [''B'', ''A'']
   \<and> select_var_names example_adata example_rank (PStr ''B'') PNone PNone = Inr [''B'']"
  using explicit_selection
    [of example_adata PNone example_rank "[''B'', ''B'', ''D'', ''A'']" PNone "''B''"]
  by (simp add: valid_groupby_def example_adata_def spec_explicit_selection_def
      input_as_list_def)

subsection \<open>Fit-name resolution\<close>

text \<open>
  C3, as stated, fails: \<open>"dynamics"\<close> is appended (line 95) to a list that keeps every
  \<open>"dynamics"\<close> of the caller, so the default \<open>fits\<close> resolves to a list with the name
  twice.
\<close>

theorem default_fits_duplicate_dynamics:
  "resolve_fits example_adata (PList [''velocity'', ''dynamics''])
     = Inr [''velocity'', ''dynamics'', ''dynamics'']
   \<and> count_list [''velocity'', ''dynamics'', ''dynamics''] ''dynamics'' = 2"
  by (simp add: resolve_fits_def var_keys_def example_adata_def)

text \<open>
  C3, amended: for every caller-supplied fits list, the resolved list contains
  \<open>"dynamics"\<close> once more than the caller's list does; so exactly once precisely when
  the caller's list does not contain it.
\<close>

theorem resolve_fits_dynamics_count:
  "\<exists>r. resolve_fits a (PList fs) = Inr r
       \<and> count_list r ''dynamics'' = count_list fs ''dynamics'' + 1
       \<and> (count_list r ''dynamics'' = 1 \<longleftrightarrow> ''dynamics'' \<notin> set fs)"
proof -
  have "count_list (filter P fs) x = (if P x then count_list fs x else 0)" for P and x :: string
    by (induction fs) auto
  then show ?thesis
    by (simp add: resolve_fits_def count_list_0_iff)
qed

theorem resolve_fits_dynamics_count_witness:
  "\<exists>r. resolve_fits example_adata (PList [''velocity'']) = Inr r
       \<and> count_list r ''dynamics'' = 1"
  using resolve_fits_dynamics_count [of example_adata "[''velocity'']"]
  by simp

subsection \<open>Fallbacks of the fit parameters\<close>

lemma var_or_total: "\<exists>r. var_or a key gene d = Inr r"
proof (cases "key \<in> set (var_keys a)")
  case True
  then have "map_of (ad_var a) key \<noteq> None"
    by (simp add: var_keys_def map_of_eq_None_iff)
  with True show ?thesis by (auto simp: var_or_def var_lookup_def)
next
  case False
  then show ?thesis by (simp add: var_or_def)
qed

lemma var_or_absent: "key \<notin> set (var_keys a) \<Longrightarrow> var_or a key gene d = Inr d"
  by (simp add: var_or_def)

text \<open>
  C8: for every gene and fit name, a parameter whose column is absent from \<open>var\<close> is
  replaced by its fallback (offset 0, beta 1, gamma 1, offset2 0), and none of the four
  lookups raises.
\<close>

theorem absent_parameters_fall_back:
  "(fit @ ''_offset'' \<notin> set (var_keys a) \<longrightarrow> offset_of a fit gene = Inr 0)
   \<and> (fit @ ''_beta'' \<notin> set (var_keys a) \<longrightarrow> beta_of a fit gene = Inr 1)
   \<and> (fit @ ''_gamma'' \<notin> set (var_keys a) \<longrightarrow> gamma_of a fit gene = Inr 1)
   \<and> (fit @ ''_offset2'' \<notin> set (var_keys a) \<longrightarrow> offset2_of a fit gene = Inr 0)
   \<and> (\<exists>offset beta gamma offset2.
         offset_of a fit gene = Inr offset \<and> beta_of a fit gene = Inr beta
         \<and> gamma_of a fit gene = Inr gamma \<and> offset2_of a fit gene = Inr offset2)"
  using var_or_total [of a "fit @ ''_offset''" gene 0] var_or_total [of a "fit @ ''_beta''" gene 1]
    var_or_total [of a "fit @ ''_gamma''" gene 1] var_or_total [of a "fit @ ''_offset2''" gene 0]
  by (auto simp: offset_of_def beta_of_def gamma_of_def offset2_of_def var_or_absent)

theorem absent_parameters_fall_back_witness:
  "''velocity_offset'' \<notin> set (var_keys example_adata)
   \<and> ''velocity_beta'' \<notin> set (var_keys example_adata)
   \<and> ''velocity_offset2'' \<notin> set (var_keys example_adata)
   \<and> ''dynamics_gamma'' \<notin> set (var_keys example_adata)
   \<and> offset_of example_adata ''velocity'' ''A'' = Inr 0
   \<and> beta_of example_adata ''velocity'' ''A'' = Inr 1
   \<and> offset2_of example_adata ''velocity'' ''A'' = Inr 0
   \<and> gamma_of example_adata ''dynamics'' ''A'' = Inr 1
   \<and> gamma_of example_adata ''velocity'' ''A'' = Inr 2"
  using absent_parameters_fall_back [of "''velocity''" example_adata "''A''"]
    absent_parameters_fall_back [of "''dynamics''" example_adata "''A''"]
  by (simp add: var_keys_def example_adata_def gamma_of_def var_or_def var_lookup_def)

subsection \<open>No source for the gene selection\<close>

text \<open>
  C9: with no explicit gene names and no valid grouping key, the call raises the
  \<open>ValueError\<close> of line 87 (the specification's configuration error); no grid was made
  and nothing was drawn.
\<close>

theorem no_selection_source_raises:
  assumes "\<not> valid_groupby a groupby"
  shows "velocity a rank moments PNone vkey mode fits layers groupby groups legend_loc use_raw ncols
           = \<lparr>grid = None, drawn = [],
              raised = Some (ValueError ''No var_names or groups specified.'')\<rparr>"
  using assms
  by (simp add: velocity_def select_var_names_def not_valid_candidate explicit_var_names_def
      failed_def)

theorem no_selection_source_raises_witness:
  "\<not> valid_groupby example_adata (PStr ''louvain'')
   \<and> velocity example_adata example_rank example_moments PNone ''velocity'' PNone
        (PList [''velocity'', ''dynamics'']) (PStr ''all'') (PStr ''louvain'') PNone ''none''
        False None
       = \<lparr>grid = None, drawn = [],
          raised = Some (ValueError ''No var_names or groups specified.'')\<rparr>"
  using no_selection_source_raises [of example_adata "PStr ''louvain''" example_rank
      example_moments "''velocity''" PNone "PList [''velocity'', ''dynamics'']" "PStr ''all''"
      PNone "''none''" False None]
  by (simp add: valid_groupby_def obs_keys_def example_adata_def)

subsection \<open>Group-ranking selection\<close>

lemma str_in_sublist: "str_in g s \<longleftrightarrow> sublist g s"
proof (induction s)
  case Nil
  show ?case by auto
next
  case (Cons c cs)
  have "take (length g) (c # cs) = g \<longleftrightarrow> prefix g (c # cs)"
    by (metis append_take_drop_id prefix_def append_eq_conv_conj)
  with Cons show ?case by (simp add: sublist_Cons_right)
qed

lemma list_ex_group_matches: "list_ex (\<lambda>g. str_in g label) gs \<longleftrightarrow> group_matches gs label"
  by (simp add: list_ex_iff group_matches_def str_in_sublist)

lemma idx_sum_matching:
  "length (filter id (map (\<lambda>group. list_ex (\<lambda>g. str_in g group) gs) categories))
     = length (filter (group_matches gs) categories)"
  by (induction categories) (simp_all add: list_ex_group_matches)

lemma masked_rows:
  "map fst (filter snd (zip rows (map (\<lambda>group. list_ex (\<lambda>g. str_in g group) gs) categories)))
     = map fst (filter (\<lambda>(row, label). group_matches gs label) (zip rows categories))"
proof (induction rows arbitrary: categories)
  case Nil
  show ?case by simp
next
  case (Cons r rows)
  then show ?case by (cases categories) (simp_all add: list_ex_group_matches)
qed

lemma int_ten_over: "nat \<lfloor>10 / real m\<rfloor> = 10 div m"
proof -
  have "\<lfloor>real 10 / real m\<rfloor> = int (10 div m)"
    by (rule floor_divide_of_nat_eq)
  then show ?thesis by simp
qed

lemma groups_as_list_tokens:
  "groups \<noteq> PNone \<Longrightarrow> groups_as_list groups = Inr (input_as_list groups)"
  by (cases groups) (simp_all add: groups_as_list_def input_as_list_def)

lemma group_var_names_no_match:
  assumes "groups \<noteq> PNone"
    and "length (filter (group_matches (input_as_list groups)) categories) = 0"
  shows "group_var_names names categories groups = Inl OverflowError"
proof -
  define idx where
    "idx = map (\<lambda>group. list_ex (\<lambda>g. str_in g group) (input_as_list groups)) categories"
  have "length (filter id idx) = 0"
    unfolding idx_def using assms(2) by (simp only: idx_sum_matching)
  with assms(1) show ?thesis
    unfolding group_var_names_def groups_as_list_tokens [OF assms(1)] sum.case
      idx_def [symmetric]
    by (simp add: Let_def)
qed

text \<open>
  On an array whose rows were the groups, lines 82 and 83 would take the top \<open>10 div m\<close>
  genes of every matching group, in group order.
\<close>

lemma group_var_names_subset:
  assumes "groups \<noteq> PNone"
    and "m = length (filter (group_matches (input_as_list groups)) categories)"
    and "1 \<le> m" and "is_2d names" and "length names = length categories"
  shows "group_var_names names categories groups
           = Inr (concat (map (\<lambda>(row, label). take (10 div m) row)
                   (filter (\<lambda>(row, label). group_matches (input_as_list groups) label)
                      (zip names categories))))"
proof -
  define idx where
    "idx = map (\<lambda>group. list_ex (\<lambda>g. str_in g group) (input_as_list groups)) categories"
  have s: "length (filter id idx) = m"
    unfolding idx_def using assms(2) by (simp only: idx_sum_matching)
  have l: "length idx = length names"
    unfolding idx_def using assms(5) by simp
  have "map fst (filter snd (zip names idx))
          = map fst (filter (\<lambda>(row, label). group_matches (input_as_list groups) label)
              (zip names categories))"
    unfolding idx_def by (rule masked_rows)
  then have r: "mask_rows_take names idx (10 div m)
          = Inr (map (\<lambda>(row, label). take (10 div m) row)
              (filter (\<lambda>(row, label). group_matches (input_as_list groups) label)
                 (zip names categories)))"
    using assms(4) l by (simp add: mask_rows_take_def case_prod_unfold)
  from s assms(3) have ne: "filter id idx \<noteq> []"
    by auto
  from assms(1) show ?thesis
    unfolding group_var_names_def groups_as_list_tokens [OF assms(1)] sum.case
      idx_def [symmetric]
    by (simp add: Let_def ne s int_ten_over r)
qed

lemma names_array_by_rank:
  assumes "list_all (\<lambda>ranked. length ranked = r) (first # others)" and "0 < r"
  shows "is_2d (names_array (first # others))
       \<and> length (names_array (first # others)) = r
       \<and> hd (names_array (first # others)) \<noteq> []
       \<and> map hd (names_array (first # others)) = first"
proof -
  from assms(1) have l: "length first = r"
    by simp
  have rows: "names_array (first # others)
                = map (\<lambda>rank. map (\<lambda>ranked. ranked ! rank) (first # others)) [0..<r]"
    by (simp add: names_array_def l)
  from assms(2) have ne: "[0..<r] \<noteq> []"
    by simp
  have two: "is_2d (names_array (first # others))"
    unfolding rows is_2d_def using assms(2) by (simp add: list_all_iff hd_map [OF ne])
  have h: "hd (names_array (first # others)) \<noteq> []"
    unfolding rows by (simp add: hd_map [OF ne])
  have "map hd (names_array (first # others)) = map (\<lambda>rank. first ! rank) [0..<length first]"
    unfolding rows by (simp add: l)
  then have c: "map hd (names_array (first # others)) = first"
    by (simp add: map_nth)
  from two h c show ?thesis
    by (simp add: rows)
qed

text \<open>
  C6, on the code: the rows of \<open>names\<close> are the ranks, not the groups, so without a
  requested subset \<open>names[:, 0]\<close> is the whole ranked list of the first group, where the
  claim takes the top-ranked gene of every group; with a subset that matches at least one
  group, the mask over the groups is applied to the ranks and raises \<open>IndexError\<close> unless
  there are as many groups as ranks, where the claim takes the top \<open>10 div m\<close> genes of
  every matching group.
\<close>

theorem ranking_read_by_rank:
  assumes "map_of (ad_obs a) key = Some categories"
    and "ranked_names a rank key = first # others"
    and "list_all (\<lambda>ranked. length ranked = r) (first # others)" and "0 < r"
  shows "candidate_var_names a rank var_names (PStr key) PNone = Inr first
       \<and> select_var_names a rank var_names (PStr key) PNone = Inr (stable_unique first)
       \<and> (groups \<noteq> PNone
            \<and> 1 \<le> length (filter (group_matches (input_as_list groups)) categories)
            \<and> length categories \<noteq> r \<longrightarrow>
            velocity a rank moments var_names vkey mode fits layers (PStr key) groups
              legend_loc use_raw ncols
              = \<lparr>grid = None, drawn = [], raised = Some IndexError\<rparr>)"
proof -
  note n = names_array_by_rank [OF assms(3,4)]
  have top: "candidate_var_names a rank var_names (PStr key) PNone = Inr first"
    using assms(1,2) n by (simp add: candidate_var_names_def group_var_names_def column0_def)
  then have sel: "select_var_names a rank var_names (PStr key) PNone = Inr (stable_unique first)"
    by (simp add: select_var_names_def pd_unique_stable)
  have sub: "velocity a rank moments var_names vkey mode fits layers (PStr key) groups
              legend_loc use_raw ncols
              = \<lparr>grid = None, drawn = [], raised = Some IndexError\<rparr>"
    if g: "groups \<noteq> PNone"
      and m: "1 \<le> length (filter (group_matches (input_as_list groups)) categories)"
      and d: "length categories \<noteq> r"
  proof -
    define idx where
      "idx = map (\<lambda>group. list_ex (\<lambda>g. str_in g group) (input_as_list groups)) categories"
    have s: "length (filter id idx) = length (filter (group_matches (input_as_list groups)) categories)"
      unfolding idx_def by (simp only: idx_sum_matching)
    with m have ne: "filter id idx \<noteq> []"
      by auto
    from d n have "length idx \<noteq> length (names_array (first # others))"
      by (simp add: idx_def)
    then have "mask_rows_take (names_array (first # others)) idx k = Inl IndexError" for k
      by (simp add: mask_rows_take_def)
    with g ne have "group_var_names (names_array (first # others)) categories groups
                      = Inl IndexError"
      unfolding group_var_names_def groups_as_list_tokens [OF g] sum.case idx_def [symmetric]
      by (simp add: Let_def)
    with assms(1,2) show ?thesis
      by (simp add: velocity_def select_var_names_def candidate_var_names_def failed_def)
  qed
  from top sel sub show ?thesis by blast
qed

theorem ranking_read_by_rank_witness:
  "map_of (ad_obs example_adata) ''clusters'' = Some [''alpha'', ''beta'', ''delta'']
   \<and> length (filter (group_matches (input_as_list (PList [''al'', ''elt''])))
               [''alpha'', ''beta'', ''delta'']) = 2
   \<and> candidate_var_names example_adata example_rank PNone (PStr ''clusters'') PNone
       = Inr [''A'', ''B'', ''C'', ''a4'', ''a5'', ''a6'', ''a7'', ''a8'', ''a9'', ''a10'']
   \<and> map hd (ranked_names example_adata example_rank ''clusters'') = [''A'', ''B'', ''C'']
   \<and> velocity example_adata example_rank example_moments PNone ''velocity'' PNone
        (PList [''velocity'', ''dynamics'']) (PStr ''all'') (PStr ''clusters'')
        (PList [''al'', ''elt'']) ''none'' False None
       = \<lparr>grid = None, drawn = [], raised = Some IndexError\<rparr>"
proof -
  have c: "map_of (ad_obs example_adata) ''clusters'' = Some [''alpha'', ''beta'', ''delta'']"
    by (simp add: example_adata_def)
  have n: "ranked_names example_adata example_rank ''clusters''
             = [''A'', ''B'', ''C'', ''a4'', ''a5'', ''a6'', ''a7'', ''a8'', ''a9'', ''a10'']
               # [[''B'', ''C'', ''A'', ''b4'', ''b5'', ''b6'', ''b7'', ''b8'', ''b9'', ''b10''],
                  [''C'', ''A'', ''B'', ''d4'', ''d5'', ''d6'', ''d7'', ''d8'', ''d9'', ''d10'']]"
    by (simp add: ranked_names_def example_adata_def example_rank_def)
  have l: "list_all (\<lambda>ranked. length ranked = 10)
             ([''A'', ''B'', ''C'', ''a4'', ''a5'', ''a6'', ''a7'', ''a8'', ''a9'', ''a10'']
               # [[''B'', ''C'', ''A'', ''b4'', ''b5'', ''b6'', ''b7'', ''b8'', ''b9'', ''b10''],
                  [''C'', ''A'', ''B'', ''d4'', ''d5'', ''d6'', ''d7'', ''d8'', ''d9'', ''d10'']])"
    by simp
  have m: "length (filter (group_matches (input_as_list (PList [''al'', ''elt''])))
               [''alpha'', ''beta'', ''delta'']) = 2"
    by (simp add: input_as_list_def list_ex_group_matches [symmetric])
  show ?thesis
    using ranking_read_by_rank [where groups = "PList [''al'', ''elt'']" and var_names = PNone
        and moments = example_moments and vkey = "''velocity''" and mode = PNone
        and fits = "PList [''velocity'', ''dynamics'']" and layers = "PStr ''all''"
        and legend_loc = "''none''" and use_raw = False and ncols = None, OF c n l]
      c n m
    by simp
qed

text \<open>
  C10: in group-ranking mode with a requested subset that no group label matches, the
  count of matching groups is 0, \<open>int(10 / idx.sum())\<close> fails on the division by zero
  (numpy gives infinity, whose conversion raises \<open>OverflowError\<close>, an arithmetic error),
  and the call ends there: no grid, nothing drawn, no smaller selection.
\<close>

theorem no_matching_group_raises:
  assumes "groupby = PStr key" and "map_of (ad_obs a) key = Some categories"
    and "groups \<noteq> PNone"
    and "length (filter (group_matches (input_as_list groups)) categories) = 0"
  shows "velocity a rank moments var_names vkey mode fits layers groupby groups legend_loc
           use_raw ncols
           = \<lparr>grid = None, drawn = [], raised = Some OverflowError\<rparr>
         \<and> is_arithmetic_error OverflowError"
  using assms
  by (simp add: velocity_def select_var_names_def candidate_var_names_def
      group_var_names_no_match failed_def)

theorem no_matching_group_raises_witness:
  "map_of (ad_obs example_adata) ''clusters'' = Some [''alpha'', ''beta'', ''delta'']
   \<and> PList [''gamma'', ''eps''] \<noteq> PNone
   \<and> length (filter (group_matches (input_as_list (PList [''gamma'', ''eps''])))
               [''alpha'', ''beta'', ''delta'']) = 0
   \<and> velocity example_adata example_rank example_moments (PList [''A'']) ''velocity'' PNone
        (PList [''velocity'', ''dynamics'']) (PStr ''all'') (PStr ''clusters'')
        (PList [''gamma'', ''eps'']) ''none'' False None
       = \<lparr>grid = None, drawn = [], raised = Some OverflowError\<rparr>"
proof -
  have m: "length (filter (group_matches (input_as_list (PList [''gamma'', ''eps''])))
               [''alpha'', ''beta'', ''delta'']) = 0"
    by (simp add: input_as_list_def list_ex_group_matches [symmetric])
  have c: "map_of (ad_obs example_adata) ''clusters'' = Some [''alpha'', ''beta'', ''delta'']"
    by (simp add: example_adata_def)
  show ?thesis
    using no_matching_group_raises [OF refl c _ m, of example_rank example_moments
        "PList [''A'']" "''velocity''" PNone "PList [''velocity'', ''dynamics'']" "PStr ''all''"
        "''none''" False None] m c
    by simp
qed

subsection \<open>Draw calls of one gene\<close>

lemma fit_lines_position:
  "e \<in> set (fst (fit_lines a pos var xnew sfits)) \<Longrightarrow> \<exists>ys. e = PlotLine pos xnew ys"
  by (induction sfits arbitrary: e) (auto split: sum.splits prod.splits)

lemma stochastic_panel_position:
  assumes "e \<in> set (fst (stochastic_panel a moments sfits nplts nl v var s u))"
  shows "(\<exists>x y. e = ScatterXY (v * nplts + nl + 1) var x y)
       \<or> (\<exists>xs ys. e = PlotLine (v * nplts + nl + 1) xs ys)"
  using assms
  by (auto simp: stochastic_panel_def Let_def split_beta split: list.splits sum.splits
      dest: fit_lines_position)

lemma layer_panels_position:
  assumes "e \<in> set (layer_panels ls skey nplts v var)"
  shows "\<exists>l < length ls. \<exists>title. e = ScatterLayer (v * nplts + l + 1) var (ls ! l) title"
  using assms by (auto simp: layer_panels_def in_set_enumerate_eq)

lemma render_gene_in_panel:
  assumes "e \<in> set (fst (render_gene a moments mode legend_loc skey ukey ls fs sfits nplts n v var))"
  shows "in_panel_of (mode = PStr ''stochastic'') nplts ls v e"
proof -
  have layer: "in_panel_of st nplts ls v e" if "e \<in> set (layer_panels ls skey nplts v var)" for st
    using layer_panels_position [OF that] by (auto simp: list_ex_iff)
  have stoch: "in_panel_of True nplts ls v e"
    if "e \<in> set (fst (stochastic_panel a moments sfits nplts (length ls) v var s u))" for s u
    using stochastic_panel_position [OF that] by auto
  from assms show ?thesis
    by (auto simp: render_gene_def Let_def split_beta split: if_splits sum.splits
        dest: layer stoch)
qed

lemma in_panel_range:
  assumes "in_panel_of st nplts ls v e" and "nplts = panels_per_gene ls st"
  shows "v * nplts \<le> position e \<and> position e < v * nplts + nplts"
  using assms by (cases e) (auto simp: panels_per_gene_def list_ex_iff)

subsection \<open>The loop over the genes\<close>

lemma render_genes_member:
  assumes "e \<in> set (fst (render_genes body v0 vars))"
  shows "\<exists>i < length vars. e \<in> set (fst (body (v0 + i) (vars ! i)))"
  using assms
proof (induction vars arbitrary: v0)
  case Nil
  then show ?case by simp
next
  case (Cons var rest)
  show ?case
  proof (cases "e \<in> set (fst (body v0 var))")
    case True
    then show ?thesis by (intro exI [of _ 0]) simp
  next
    case False
    with Cons.prems have "e \<in> set (fst (render_genes body (Suc v0) rest))"
      by (auto split: prod.splits option.splits)
    from Cons.IH [OF this] obtain i where "i < length rest"
      and "e \<in> set (fst (body (Suc v0 + i) (rest ! i)))" by blast
    then show ?thesis by (intro exI [of _ "Suc i"]) simp
  qed
qed

lemma render_genes_complete:
  assumes "snd (render_genes body v0 vars) = None"
  shows "fst (render_genes body v0 vars)
           = concat (map (\<lambda>(v, var). fst (body v var)) (enumerate v0 vars))
       \<and> (\<forall>(v, var) \<in> set (enumerate v0 vars). snd (body v var) = None)"
  using assms
proof (induction vars arbitrary: v0)
  case Nil
  show ?case by simp
next
  case (Cons var rest)
  from Cons.prems have b: "snd (body v0 var) = None"
    by (auto split: prod.splits option.splits)
  with Cons.prems have r: "snd (render_genes body (Suc v0) rest) = None"
    by (auto split: prod.splits option.splits)
  from b Cons.IH [OF r] show ?case
    by (auto split: prod.splits option.splits)
qed

lemma render_genes_all_ok:
  assumes "\<forall>(v, var) \<in> set (enumerate v0 vars). snd (body v var) = None"
  shows "render_genes body v0 vars
           = (concat (map (\<lambda>(v, var). fst (body v var)) (enumerate v0 vars)), None)"
  using assms
proof (induction vars arbitrary: v0)
  case Nil
  show ?case by simp
next
  case (Cons var rest)
  then show ?case by (auto split: prod.splits option.splits)
qed

lemma rows_cover_genes:
  assumes "0 < c"
  shows "g \<le> nat \<lceil>real g / real c\<rceil> * c"
proof -
  have "real g / real c * real c \<le> real_of_int \<lceil>real g / real c\<rceil> * real c"
    by (rule mult_right_mono) simp_all
  with assms have "real g \<le> real_of_int \<lceil>real g / real c\<rceil> * real c"
    by simp
  moreover have "0 \<le> \<lceil>real g / real c\<rceil>"
  proof -
    have "\<lceil>0::real\<rceil> \<le> \<lceil>real g / real c\<rceil>"
      by (rule ceiling_mono) simp
    then show ?thesis by simp
  qed
  ultimately have "real g \<le> real (nat \<lceil>real g / real c\<rceil> * c)" by simp
  then show ?thesis by linarith
qed

subsection \<open>The call as a whole\<close>

lemma velocity_rendered:
  assumes "select_var_names a rank var_names groupby groups = Inr vars"
    and "phase_keys a use_raw = (skey, ukey)"
    and "resolve_layers a vkey skey layers = Inr ls"
    and "resolve_fits a fits = Inr fs"
    and "0 < ncols_or_default ncols"
    and "body = render_gene a moments mode legend_loc skey ukey ls fs (stochastic_fits_of a fs)
                  (nplts_of ls mode) (length vars)"
  shows "velocity a rank moments var_names vkey mode fits layers groupby groups legend_loc
           use_raw ncols
         = \<lparr>grid = Some (nat \<lceil>real (length vars) / real (ncols_or_default ncols)\<rceil>,
                          ncols_or_default ncols * nplts_of ls mode),
            drawn = fst (render_genes body 0 vars),
            raised = snd (render_genes body 0 vars)\<rparr>"
  using assms by (simp add: velocity_def nrows_of_def Let_def split_beta)

lemma nplts_of_panels: "nplts_of ls mode = panels_per_gene ls (mode = PStr ''stochastic'')"
  by (simp add: nplts_of_def panels_per_gene_def)

lemma layer_panels_member:
  assumes "l < length ls"
  shows "\<exists>title. ScatterLayer (v * nplts + l + 1) var (ls ! l) title
           \<in> set (layer_panels ls skey nplts v var)"
proof -
  from assms have "(l, ls ! l) \<in> set (enumerate 0 ls)"
    by (simp add: in_set_enumerate_eq)
  then have "ScatterLayer (v * nplts + l + 1) var (ls ! l)
               (if ls ! l \<in> set [''X'', skey] then ''expression'' else ls ! l)
             \<in> (\<lambda>(l, layer). ScatterLayer (v * nplts + l + 1) var layer
                   (if layer \<in> set [''X'', skey] then ''expression'' else layer))
                 ` set (enumerate 0 ls)"
    by (rule rev_image_eqI) simp
  then show ?thesis
    unfolding layer_panels_def set_map by blast
qed

lemma stochastic_panel_scatter:
  assumes "snd (stochastic_panel a moments sfits nplts nl v var s u) = None"
  shows "\<exists>x y. ScatterXY (v * nplts + nl + 1) var x y
           \<in> set (fst (stochastic_panel a moments sfits nplts nl v var s u))"
  using assms
  by (auto simp: stochastic_panel_def Let_def split_beta split: list.splits sum.splits)

lemma render_gene_complete_panels:
  assumes "snd (render_gene a moments mode legend_loc skey ukey ls fs sfits nplts n v var) = None"
  shows "(\<exists>leg. ScatterPhase (v * nplts) var fs leg
            \<in> set (fst (render_gene a moments mode legend_loc skey ukey ls fs sfits nplts n v var)))
       \<and> (\<forall>l < length ls. \<exists>title. ScatterLayer (v * nplts + l + 1) var (ls ! l) title
            \<in> set (fst (render_gene a moments mode legend_loc skey ukey ls fs sfits nplts n v var)))
       \<and> (mode = PStr ''stochastic'' \<longrightarrow>
            (\<exists>x y. ScatterXY (v * nplts + length ls + 1) var x y
            \<in> set (fst (render_gene a moments mode legend_loc skey ukey ls fs sfits nplts n v var))))"
proof -
  from assms obtain s u where s: "layer_lookup a skey var = Inr s"
    and u: "layer_lookup a ukey var = Inr u" and v: "var \<in> set (ad_var_names a)"
    by (auto simp: render_gene_def split: if_splits sum.splits)
  show ?thesis
  proof (cases "mode = PStr ''stochastic''")
    case True
    with assms s u v
    have "snd (stochastic_panel a moments sfits nplts (length ls) v var s u) = None"
      by (simp add: render_gene_def Let_def split_beta)
    from stochastic_panel_scatter [OF this] True s u v layer_panels_member [of _ ls v nplts var skey]
    show ?thesis
      by (auto simp: render_gene_def Let_def split_beta)
  next
    case False
    with s u v layer_panels_member [of _ ls v nplts var skey] show ?thesis
      by (auto simp: render_gene_def Let_def)
  qed
qed

subsection \<open>The stochastic block\<close>

lemma layer_lookup_present:
  "map_of (ad_layers a) key = Some layer \<Longrightarrow>
   layer_lookup a key var = Inr (map (layer var) [0..<ad_n_obs a])"
  by (simp add: layer_lookup_def)

lemma var_or_parameter: "var_or a key var fallback = Inr (fit_parameter a key var fallback)"
proof (cases "map_of (ad_var a) key")
  case None
  then have "key \<notin> set (var_keys a)"
    by (simp add: var_keys_def map_of_eq_None_iff)
  with None show ?thesis
    by (simp add: var_or_def fit_parameter_def)
next
  case (Some column)
  then have "key \<in> set (var_keys a)"
    by (metis map_of_eq_None_iff option.distinct(1) var_keys_def set_map)
  with Some show ?thesis
    by (simp add: var_or_def var_lookup_def fit_parameter_def)
qed

lemma fit_parameter_absent:
  "key \<notin> set (var_keys a) \<Longrightarrow> fit_parameter a key var fallback = fallback"
  by (simp add: fit_parameter_def var_keys_def map_of_eq_None_iff [THEN iffD2])

lemma stochastic_xy_absent:
  assumes "fit @ ''_offset'' \<notin> set (var_keys a)" and "fit @ ''_beta'' \<notin> set (var_keys a)"
    and "moments var = (ss, us)"
  shows "stochastic_xy a moments fit var (map s [0..<ad_n_obs a]) (map u [0..<ad_n_obs a])
           = Inr (spec_x s ss (ad_n_obs a), spec_y s u us 0 1 (ad_n_obs a))"
proof -
  have z2: "zip (map f xs) (map g xs) = map (\<lambda>i. (f i, g i)) xs" for f g :: "nat \<Rightarrow> real" and xs
    by (induction xs) simp_all
  have z3: "zip (map f xs) (map (\<lambda>i. (g i, h i)) xs) = map (\<lambda>i. (f i, g i, h i)) xs"
    for f g h :: "nat \<Rightarrow> real" and xs
    by (induction xs) simp_all
  show ?thesis
    using assms
    by (simp add: stochastic_xy_def offset_of_def beta_of_def var_or_absent z2 z3 spec_x_def
        spec_y_def corrected_x_def corrected_y_def comp_def)
qed

lemma stochastic_xy_series:
  assumes "fit @ ''_offset'' \<in> set (var_keys a) \<or> fit @ ''_beta'' \<in> set (var_keys a)"
    and "2 \<le> ad_n_obs a"
  shows "stochastic_xy a moments fit var s u = Inl (ValueError series_length_mismatch)"
  using assms
  by (auto simp: stochastic_xy_def offset_of_def beta_of_def var_or_parameter)

lemma np_min_Min: "xs \<noteq> [] \<Longrightarrow> np_min xs = Inr (Min (set xs))"
  using Min.set_eq_fold [of "hd xs" "tl xs"] by (cases xs) (simp_all add: np_min_def)

lemma np_max_Max: "xs \<noteq> [] \<Longrightarrow> np_max xs = Inr (Max (set xs))"
  using Max.set_eq_fold [of "hd xs" "tl xs"] by (cases xs) (simp_all add: np_max_def)

lemma xnew_of_value:
  "x \<noteq> [] \<Longrightarrow> xnew_of x = Inr (linspace (Min (set x)) (Max (set x) * 1.02))"
  by (simp add: xnew_of_def np_min_Min np_max_Max)

lemma fit_line_value:
  "fit_line a var xnew fit
     = Inr (spec_line (fit_parameter a (fit @ ''_gamma'') var 1)
              (fit_parameter a (fit @ ''_beta'') var 1)
              (fit_parameter a (fit @ ''_offset2'') var 0) xnew)"
  by (simp add: fit_line_def gamma_of_def beta_of_def offset2_of_def var_or_parameter
      spec_line_def)

lemma fit_lines_value:
  "fit_lines a pos var xnew fits = (map (spec_fit_line a var pos xnew) fits, None)"
  by (induction fits) (simp_all add: fit_line_value spec_fit_line_def)

lemma linspace_ends:
  "length (linspace lo hi) = 50 \<and> hd (linspace lo hi) = lo \<and> last (linspace lo hi) = hi"
  by (simp add: linspace_def upt_conv_Cons [of 0 49])

lemma render_gene_stochastic:
  assumes "var \<in> set (ad_var_names a)"
    and "map_of (ad_layers a) skey = Some sl" and "map_of (ad_layers a) ukey = Some ul"
    and "sfits = fit # others" and "0 < ad_n_obs a"
    and "fit @ ''_offset'' \<notin> set (var_keys a)" and "fit @ ''_beta'' \<notin> set (var_keys a)"
    and "moments var = (ss, us)"
    and "x = spec_x (sl var) ss (ad_n_obs a)"
    and "y = spec_y (sl var) (ul var) us 0 1 (ad_n_obs a)"
    and "pos = v * nplts + length ls + 1"
    and "xnew = linspace (Min (set x)) (Max (set x) * 1.02)"
  shows "render_gene a moments (PStr ''stochastic'') legend_loc skey ukey ls fs sfits nplts n v var
           = (ScatterPhase (v * nplts) var fs (if int v < int n - 1 then ''none'' else legend_loc)
                # layer_panels ls skey nplts v var
                @ ScatterXY pos var x y # map (spec_fit_line a var pos xnew) sfits,
              None)"
proof -
  from assms(5,9) have ne: "x \<noteq> []"
    by (simp add: spec_x_def)
  have sp: "stochastic_panel a moments sfits nplts (length ls) v var
              (map (sl var) [0..<ad_n_obs a]) (map (ul var) [0..<ad_n_obs a])
            = (ScatterXY pos var x y # map (spec_fit_line a var pos xnew) sfits, None)"
    unfolding stochastic_panel_def assms(4) list.case
      stochastic_xy_absent [where moments = moments and s = "sl var" and u = "ul var",
        OF assms(6,7,8)] assms(9,10) [symmetric]
    using xnew_of_value [OF ne] assms(11,12)
    by (simp add: fit_lines_value assms(4) [symmetric])
  show ?thesis
    unfolding render_gene_def layer_lookup_present [OF assms(2)]
      layer_lookup_present [OF assms(3)]
    using assms(1) sp by (simp add: Let_def)
qed

lemma render_gene_plain:
  assumes "var \<in> set (ad_var_names a)"
    and "map_of (ad_layers a) skey = Some sl" and "map_of (ad_layers a) ukey = Some ul"
    and "mode \<noteq> PStr ''stochastic''"
  shows "render_gene a moments mode legend_loc skey ukey ls fs sfits nplts n v var
           = (ScatterPhase (v * nplts) var fs (if int v < int n - 1 then ''none'' else legend_loc)
                # layer_panels ls skey nplts v var,
              None)"
  unfolding render_gene_def layer_lookup_present [OF assms(2)] layer_lookup_present [OF assms(3)]
  using assms(1,4) by (simp add: Let_def)

subsection \<open>A complete call\<close>

lemma map_index_enumerate:
  "map (\<lambda>x. f (fst x)) (enumerate n xs) = map f [n..<n + length xs]"
proof -
  have "map (\<lambda>x. f (fst x)) (enumerate n xs) = map f (map fst (enumerate n xs))"
    by (simp only: map_map comp_def)
  also have "\<dots> = map f [n..<n + length xs]"
    by (simp only: map_fst_enumerate)
  finally show ?thesis .
qed

lemma layer_panels_positions:
  "map position (layer_panels ls skey nplts v var) = map (\<lambda>l. v * nplts + l + 1) [0..<length ls]"
  using map_index_enumerate [of "\<lambda>l. v * nplts + l + 1" 0 ls]
  by (simp add: layer_panels_def case_prod_unfold comp_def)

lemma position_fit_line: "position (spec_fit_line a var pos xnew fit) = pos"
  by (simp add: spec_fit_line_def)

lemma render_gene_complete:
  assumes "var \<in> set (ad_var_names a)"
    and "map_of (ad_layers a) skey = Some sl" and "map_of (ad_layers a) ukey = Some ul"
    and "mode = PStr ''stochastic'' \<longrightarrow>
           sfits = fit # others \<and> fit @ ''_offset'' \<notin> set (var_keys a)
           \<and> fit @ ''_beta'' \<notin> set (var_keys a) \<and> 0 < ad_n_obs a"
  shows "snd (render_gene a moments mode legend_loc skey ukey ls fs sfits nplts n v var) = None
       \<and> map position (fst (render_gene a moments mode legend_loc skey ukey ls fs sfits nplts n
                                v var))
           = panel_positions nplts (length ls)
               (if mode = PStr ''stochastic'' then 1 + length sfits else 0) v"
proof (cases "mode = PStr ''stochastic''")
  case True
  obtain ss us where mo: "moments var = (ss, us)"
    by (cases "moments var")
  from True assms(4) have h: "sfits = fit # others" "fit @ ''_offset'' \<notin> set (var_keys a)"
    "fit @ ''_beta'' \<notin> set (var_keys a)" "0 < ad_n_obs a"
    by simp_all
  show ?thesis
    unfolding True
    by (subst (1 2) render_gene_stochastic [where moments = moments and sl = sl and ul = ul,
          OF assms(1-3) h(1) h(4) h(2,3) mo refl refl refl refl])
      (simp add: panel_positions_def layer_panels_positions position_fit_line comp_def
        map_replicate_const h(1))
next
  case False
  then show ?thesis
    by (simp add: render_gene_plain [OF assms(1-3) False] panel_positions_def
        layer_panels_positions)
qed

lemma velocity_complete:
  assumes "select_var_names a rank var_names groupby groups = Inr vars"
    and "set vars \<subseteq> set (ad_var_names a)"
    and "phase_keys a use_raw = (skey, ukey)"
    and "map_of (ad_layers a) skey = Some sl" and "map_of (ad_layers a) ukey = Some ul"
    and "resolve_layers a vkey skey layers = Inr ls"
    and "resolve_fits a fits = Inr fs"
    and "0 < ncols_or_default ncols"
    and "mode = PStr ''stochastic'' \<longrightarrow>
           stochastic_fits_of a fs = fit # others \<and> fit @ ''_offset'' \<notin> set (var_keys a)
           \<and> fit @ ''_beta'' \<notin> set (var_keys a) \<and> 0 < ad_n_obs a"
    and "body = render_gene a moments mode legend_loc skey ukey ls fs (stochastic_fits_of a fs)
                  (nplts_of ls mode) (length vars)"
    and "out = velocity a rank moments var_names vkey mode fits layers groupby groups legend_loc
                 use_raw ncols"
  shows "raised out = None
       \<and> grid out = Some (nat \<lceil>real (length vars) / real (ncols_or_default ncols)\<rceil>,
                          ncols_or_default ncols * nplts_of ls mode)
       \<and> drawn out = concat (map (\<lambda>(v, var). fst (body v var)) (enumerate 0 vars))
       \<and> map position (drawn out)
           = concat (map (panel_positions (nplts_of ls mode) (length ls)
                            (if mode = PStr ''stochastic''
                             then 1 + length (stochastic_fits_of a fs) else 0))
                       [0..<length vars])"
proof -
  have each: "snd (body v var) = None
       \<and> map position (fst (body v var))
           = panel_positions (nplts_of ls mode) (length ls)
               (if mode = PStr ''stochastic'' then 1 + length (stochastic_fits_of a fs) else 0) v"
    if "var \<in> set vars" for v var
  proof -
    from that assms(2) have "var \<in> set (ad_var_names a)" by blast
    from render_gene_complete [OF this assms(4,5,9)] show ?thesis
      by (simp add: assms(10))
  qed
  then have "\<forall>(v, var) \<in> set (enumerate 0 vars). snd (body v var) = None"
    by (auto simp: in_set_enumerate_eq)
  from render_genes_all_ok [OF this]
  have r: "render_genes body 0 vars
          = (concat (map (\<lambda>(v, var). fst (body v var)) (enumerate 0 vars)), None)" .
  have out: "out = \<lparr>grid = Some (nat \<lceil>real (length vars) / real (ncols_or_default ncols)\<rceil>,
                          ncols_or_default ncols * nplts_of ls mode),
            drawn = concat (map (\<lambda>(v, var). fst (body v var)) (enumerate 0 vars)),
            raised = None\<rparr>"
    using velocity_rendered [OF assms(1,3,6,7,8,10)] r assms(11) by simp
  have "map (\<lambda>(v, var). map position (fst (body v var))) (enumerate 0 vars)
          = map (\<lambda>(v, var). panel_positions (nplts_of ls mode) (length ls)
                   (if mode = PStr ''stochastic''
                    then 1 + length (stochastic_fits_of a fs) else 0) v) (enumerate 0 vars)"
    using each by (intro map_cong refl) (auto simp: in_set_enumerate_eq)
  also have "\<dots> = map (panel_positions (nplts_of ls mode) (length ls)
                   (if mode = PStr ''stochastic''
                    then 1 + length (stochastic_fits_of a fs) else 0))
                 [0..<length vars]"
    using map_index_enumerate [of "panel_positions (nplts_of ls mode) (length ls)
                   (if mode = PStr ''stochastic''
                    then 1 + length (stochastic_fits_of a fs) else 0)" 0 vars]
    by (simp add: case_prod_unfold)
  finally have "map position (drawn out)
           = concat (map (panel_positions (nplts_of ls mode) (length ls)
                            (if mode = PStr ''stochastic''
                             then 1 + length (stochastic_fits_of a fs) else 0))
                       [0..<length vars])"
    by (simp add: out map_concat comp_def case_prod_unfold)
  with out show ?thesis by simp
qed

lemma example_select3:
  "select_var_names example_adata example_rank (PList [''B'', ''A'', ''C'']) PNone PNone
     = Inr [''B'', ''A'', ''C'']"
  by (simp add: select_var_names_def candidate_var_names_def explicit_var_names_def
      pd_unique_def example_adata_def)

lemma example_phase_keys: "phase_keys example_adata False = (''spliced'', ''unspliced'')"
  by (simp add: phase_keys_def layers_keys_def example_adata_def)

lemma example_layers:
  "resolve_layers example_adata ''velocity'' ''spliced'' (PStr ''all'')
     = Inr [''velocity'', ''spliced'']"
  by (simp add: resolve_layers_def layers_keys_def example_adata_def)

lemma example_fits:
  "resolve_fits example_adata (PList [''velocity'', ''dynamics''])
     = Inr [''velocity'', ''dynamics'', ''dynamics'']"
  by (simp add: resolve_fits_def var_keys_def example_adata_def)

lemma example_stochastic_fits:
  "stochastic_fits_of example_adata [''velocity'', ''dynamics'', ''dynamics''] = [''velocity'']"
  by (simp add: stochastic_fits_of_def layers_keys_def example_adata_def)

lemma example_spliced: "map_of (ad_layers example_adata) ''spliced'' = Some (\<lambda>g i. 1)"
  by (simp add: example_adata_def)

lemma example_unspliced: "map_of (ad_layers example_adata) ''unspliced'' = Some (\<lambda>g i. 1)"
  by (simp add: example_adata_def)

lemma example_no_offset_beta:
  "''velocity'' @ ''_offset'' \<notin> set (var_keys example_adata)
   \<and> ''velocity'' @ ''_beta'' \<notin> set (var_keys example_adata)
   \<and> 0 < ad_n_obs example_adata"
  by (simp add: var_keys_def example_adata_def)

text \<open>
  C2: for a call that completes on at least one selected gene, with resolved extra layers
  \<open>ls\<close> and a column multiplier \<open>c \<ge> 1\<close> (1 when \<open>ncols\<close> is not given): the panel count of
  one gene is \<open>p = 1 + |ls| + (2 if stochastic else 0)\<close>, the grid has \<open>ceil(g / c)\<close> rows
  and \<open>c * p\<close> columns, and the draw calls go, gene after gene, to the positions of the
  block \<open>[v * p, v * p + p)\<close> of the gene they show, inside the grid: the phase portrait
  at offset 0, the \<open>l\<close>-th extra layer at offset \<open>l + 1\<close>, the stochastic panel after all
  layer panels.
\<close>

theorem grid_layout:
  assumes "select_var_names a rank var_names groupby groups = Inr vars"
    and "set vars \<subseteq> set (ad_var_names a)" and "1 \<le> length vars"
    and "phase_keys a use_raw = (skey, ukey)"
    and "map_of (ad_layers a) skey = Some sl" and "map_of (ad_layers a) ukey = Some ul"
    and "resolve_layers a vkey skey layers = Inr ls"
    and "resolve_fits a fits = Inr fs"
    and "c = (case ncols of None \<Rightarrow> 1 | Some k \<Rightarrow> k)" and "1 \<le> c"
    and "st = (mode = PStr ''stochastic'')"
    and "st \<longrightarrow> stochastic_fits_of a fs = fit # others
           \<and> fit @ ''_offset'' \<notin> set (var_keys a) \<and> fit @ ''_beta'' \<notin> set (var_keys a)
           \<and> 0 < ad_n_obs a"
    and "p = 1 + length ls + (if st then 2 else 0)"
    and "out = velocity a rank moments var_names vkey mode fits layers groupby groups
                 legend_loc use_raw ncols"
  shows "raised out = None
       \<and> grid out = Some (nat \<lceil>real (length vars) / real c\<rceil>, c * p)
       \<and> map position (drawn out)
           = concat (map (panel_positions p (length ls)
                            (if st then 1 + length (stochastic_fits_of a fs) else 0))
                       [0..<length vars])
       \<and> (\<forall>e \<in> set (drawn out). \<exists>v < length vars.
            in_panel_of st p ls v e \<and> v * p \<le> position e \<and> position e < v * p + p
            \<and> position e < nat \<lceil>real (length vars) / real c\<rceil> * (c * p))
       \<and> (\<forall>v < length vars.
            (\<exists>leg. ScatterPhase (v * p) (vars ! v) fs leg \<in> set (drawn out))
            \<and> (\<forall>l < length ls. \<exists>title.
                  ScatterLayer (v * p + l + 1) (vars ! v) (ls ! l) title \<in> set (drawn out))
            \<and> (st \<longrightarrow> (\<exists>x y.
                  ScatterXY (v * p + length ls + 1) (vars ! v) x y \<in> set (drawn out))))"
proof -
  define body where
    "body = render_gene a moments mode legend_loc skey ukey ls fs (stochastic_fits_of a fs)
              (nplts_of ls mode) (length vars)"
  have c: "ncols_or_default ncols = c"
    using assms(9) by (simp add: ncols_or_default_def)
  have np: "nplts_of ls mode = p"
    using assms(11,13) by (simp add: nplts_of_def)
  have pp: "p = panels_per_gene ls st"
    using assms(13) by (simp add: panels_per_gene_def)
  from assms(10) c have c0: "0 < ncols_or_default ncols"
    by simp
  from assms(11,12) have ok: "mode = PStr ''stochastic'' \<longrightarrow>
           stochastic_fits_of a fs = fit # others \<and> fit @ ''_offset'' \<notin> set (var_keys a)
           \<and> fit @ ''_beta'' \<notin> set (var_keys a) \<and> 0 < ad_n_obs a"
    by simp
  note whole = velocity_complete [OF assms(1,2,4,5,6,7,8) c0 ok body_def assms(14),
      unfolded c np assms(11) [symmetric]]
  have cover: "length vars * p \<le> nat \<lceil>real (length vars) / real c\<rceil> * (c * p)"
    using rows_cover_genes [of c "length vars"] assms(10)
    by (metis Suc_le_eq One_nat_def mult.assoc mult_le_mono1)
  have inside: "\<exists>v < length vars.
            in_panel_of st p ls v e \<and> v * p \<le> position e \<and> position e < v * p + p
            \<and> position e < nat \<lceil>real (length vars) / real c\<rceil> * (c * p)"
    if "e \<in> set (drawn out)" for e
  proof -
    from that whole obtain v var where m: "(v, var) \<in> set (enumerate 0 vars)"
      and e: "e \<in> set (fst (body v var))"
      by auto
    from m have v: "v < length vars"
      by (simp add: in_set_enumerate_eq)
    from e have i: "in_panel_of st p ls v e"
      using render_gene_in_panel [of e a moments mode legend_loc skey ukey ls fs _ "nplts_of ls mode"]
      by (simp add: body_def np assms(11))
    from in_panel_range [OF i pp] have r: "v * p \<le> position e" "position e < v * p + p"
      by simp_all
    from r have "position e < (v + 1) * p"
      by simp
    also from v have "(v + 1) * p \<le> length vars * p"
      by (intro mult_le_mono1) simp
    also note cover
    finally have "position e < nat \<lceil>real (length vars) / real c\<rceil> * (c * p)" .
    with v i r show ?thesis by blast
  qed
  have all: "(\<exists>leg. ScatterPhase (v * p) (vars ! v) fs leg \<in> set (drawn out))
               \<and> (\<forall>l < length ls. \<exists>title.
                     ScatterLayer (v * p + l + 1) (vars ! v) (ls ! l) title \<in> set (drawn out))
               \<and> (st \<longrightarrow> (\<exists>x y.
                     ScatterXY (v * p + length ls + 1) (vars ! v) x y \<in> set (drawn out)))"
    if v: "v < length vars" for v
  proof -
    from v have m: "(v, vars ! v) \<in> set (enumerate 0 vars)"
      by (simp add: in_set_enumerate_eq)
    from v assms(2) have "vars ! v \<in> set (ad_var_names a)"
      by auto
    from render_gene_complete [OF this assms(5,6) ok]
    have b: "snd (body v (vars ! v)) = None"
      by (simp add: body_def)
    from m whole have sub: "set (fst (body v (vars ! v))) \<subseteq> set (drawn out)"
      by auto
    from render_gene_complete_panels [OF b [unfolded body_def]] sub
    show ?thesis
      unfolding body_def np assms(11) by blast
  qed
  from whole have "raised out = None"
    and "grid out = Some (nat \<lceil>real (length vars) / real c\<rceil>, c * p)"
    and "map position (drawn out)
           = concat (map (panel_positions p (length ls)
                            (if st then 1 + length (stochastic_fits_of a fs) else 0))
                       [0..<length vars])"
    by blast+
  with inside all show ?thesis by blast
qed

theorem grid_layout_witness:
  "select_var_names example_adata example_rank (PList [''B'', ''A'', ''C'']) PNone PNone
     = Inr [''B'', ''A'', ''C'']
   \<and> resolve_layers example_adata ''velocity'' ''spliced'' (PStr ''all'')
       = Inr [''velocity'', ''spliced'']
   \<and> stochastic_fits_of example_adata [''velocity'', ''dynamics'', ''dynamics''] = [''velocity'']
   \<and> raised (velocity example_adata example_rank example_moments (PList [''B'', ''A'', ''C''])
        ''velocity'' (PStr ''stochastic'') (PList [''velocity'', ''dynamics'']) (PStr ''all'')
        PNone PNone ''none'' False (Some 2)) = None
   \<and> grid (velocity example_adata example_rank example_moments (PList [''B'', ''A'', ''C''])
        ''velocity'' (PStr ''stochastic'') (PList [''velocity'', ''dynamics'']) (PStr ''all'')
        PNone PNone ''none'' False (Some 2)) = Some (2, 10)
   \<and> map position
        (drawn (velocity example_adata example_rank example_moments (PList [''B'', ''A'', ''C''])
          ''velocity'' (PStr ''stochastic'') (PList [''velocity'', ''dynamics'']) (PStr ''all'')
          PNone PNone ''none'' False (Some 2)))
       = [0, 1, 2, 3, 3, 5, 6, 7, 8, 8, 10, 11, 12, 13, 13]
   \<and> grid (velocity example_adata example_rank example_moments (PList [''B'', ''A'', ''C''])
        ''velocity'' PNone (PList [''velocity'', ''dynamics'']) (PStr ''all'')
        PNone PNone ''none'' False None) = Some (3, 3)
   \<and> map position
        (drawn (velocity example_adata example_rank example_moments (PList [''B'', ''A'', ''C''])
          ''velocity'' PNone (PList [''velocity'', ''dynamics'']) (PStr ''all'')
          PNone PNone ''none'' False None))
       = [0, 1, 2, 3, 4, 5, 6, 7, 8]"
proof -
  have g: "set [''B'', ''A'', ''C''] \<subseteq> set (ad_var_names example_adata)"
    by (simp add: example_adata_def)
  have n: "(1::nat) \<le> length [''B'', ''A'', ''C'']"
    by simp
  have s: "True \<longrightarrow> stochastic_fits_of example_adata [''velocity'', ''dynamics'', ''dynamics'']
             = ''velocity'' # []
           \<and> ''velocity'' @ ''_offset'' \<notin> set (var_keys example_adata)
           \<and> ''velocity'' @ ''_beta'' \<notin> set (var_keys example_adata)
           \<and> 0 < ad_n_obs example_adata"
    using example_stochastic_fits example_no_offset_beta by simp
  have u: "[0..<length [''B'', ''A'', ''C'']] = [0, 1, 2]"
    by (simp add: upt_conv_Cons)
  have r2: "nat \<lceil>real (length [''B'', ''A'', ''C'']) / real 2\<rceil> = 2"
    and r1: "nat \<lceil>real (length [''B'', ''A'', ''C'']) / real 1\<rceil> = 3"
    by simp_all
  note stochastic =
    grid_layout [where moments = example_moments and mode = "PStr ''stochastic''"
      and legend_loc = "''none''" and ncols = "Some 2" and c = 2 and st = True
      and sl = "\<lambda>g i. 1" and ul = "\<lambda>g i. 1",
      OF example_select3 g n example_phase_keys example_spliced example_unspliced
        example_layers example_fits _ _ _ s refl refl]
  note plain =
    grid_layout [where moments = example_moments and mode = PNone
      and legend_loc = "''none''" and ncols = None and c = 1 and st = False
      and sl = "\<lambda>g i. 1" and ul = "\<lambda>g i. 1",
      OF example_select3 g n example_phase_keys example_spliced example_unspliced
        example_layers example_fits _ _ _ _ refl refl]
  show ?thesis
    using stochastic plain example_select3 example_layers example_stochastic_fits
    by (simp add: panel_positions_def u r2 r1 upt_conv_Cons)
qed

subsection \<open>Lines of the stochastic panel\<close>

lemma concat_enumerate_single:
  assumes "v < length xs"
    and "\<forall>i < length xs. i \<noteq> v \<longrightarrow> f i (xs ! i) = []"
  shows "concat (map (\<lambda>(i, x). f i x) (enumerate 0 xs)) = f v (xs ! v)"
proof -
  have split: "xs = take v xs @ xs ! v # drop (Suc v) xs"
    using assms(1) by (rule id_take_nth_drop)
  have before: "concat (map (\<lambda>(i, x). f i x) (enumerate 0 (take v xs))) = []"
    using assms by (auto simp: in_set_enumerate_eq)
  have after: "concat (map (\<lambda>(i, x). f i x) (enumerate (Suc v) (drop (Suc v) xs))) = []"
    using assms by (auto simp: in_set_enumerate_eq)
  have e: "enumerate 0 xs
          = enumerate 0 (take v xs) @ (v, xs ! v) # enumerate (Suc v) (drop (Suc v) xs)"
    using assms(1) by (subst split) (simp add: enumerate_append_eq min_def)
  have "concat (map (\<lambda>(i, x). f i x) (enumerate 0 xs))
          = concat (map (\<lambda>(i, x). f i x) (enumerate 0 (take v xs))) @ f v (xs ! v)
            @ concat (map (\<lambda>(i, x). f i x) (enumerate (Suc v) (drop (Suc v) xs)))"
    unfolding e by simp
  also have "\<dots> = f v (xs ! v)"
    unfolding before after by simp
  finally show ?thesis .
qed

lemma blocks_disjoint:
  fixes i v p q :: nat
  assumes "i * p \<le> q" and "q < i * p + p" and "v * p \<le> q" and "q < v * p + p"
  shows "i = v"
proof -
  have "q div p = i"
    using assms(1,2) by (intro div_nat_eqI) (simp_all add: mult.commute)
  moreover have "q div p = v"
    using assms(3,4) by (intro div_nat_eqI) (simp_all add: mult.commute)
  ultimately show ?thesis by simp
qed

lemma is_line_at_position: "is_line_at pos e \<Longrightarrow> position e = pos"
  by (cases e) simp_all

lemma no_line_in_layer_panels: "filter (is_line_at pos) (layer_panels ls skey nplts v var) = []"
  by (auto simp: layer_panels_def filter_empty_conv)

lemma all_lines_kept:
  "filter (is_line_at pos) (map (spec_fit_line a var pos xnew) fits)
     = map (spec_fit_line a var pos xnew) fits"
  by (induction fits) (simp_all add: spec_fit_line_def)

lemma stochastic_lines:
  assumes "select_var_names a rank var_names groupby groups = Inr vars"
    and "set vars \<subseteq> set (ad_var_names a)"
    and "phase_keys a use_raw = (skey, ukey)"
    and "map_of (ad_layers a) skey = Some sl" and "map_of (ad_layers a) ukey = Some ul"
    and "resolve_layers a vkey skey layers = Inr ls"
    and "resolve_fits a fits = Inr fs"
    and "stochastic_fits_of a fs = fit # others"
    and "fit @ ''_offset'' \<notin> set (var_keys a)" and "fit @ ''_beta'' \<notin> set (var_keys a)"
    and "0 < ad_n_obs a" and "0 < ncols_or_default ncols"
    and "v < length vars" and "var = vars ! v"
    and "x = spec_x (sl var) (fst (moments var)) (ad_n_obs a)"
    and "pos = v * nplts_of ls (PStr ''stochastic'') + length ls + 1"
    and "xnew = linspace (Min (set x)) (Max (set x) * 1.02)"
    and "out = velocity a rank moments var_names vkey (PStr ''stochastic'') fits layers groupby
                 groups legend_loc use_raw ncols"
  shows "raised out = None
       \<and> filter (is_line_at pos) (drawn out) = map (spec_fit_line a var pos xnew) (fit # others)
       \<and> ScatterXY pos var x (spec_y (sl var) (ul var) (snd (moments var)) 0 1 (ad_n_obs a))
           \<in> set (drawn out)"
proof -
  define p where "p = nplts_of ls (PStr ''stochastic'')"
  define body where
    "body = render_gene a moments (PStr ''stochastic'') legend_loc skey ukey ls fs
              (stochastic_fits_of a fs) p (length vars)"
  have ok: "PStr ''stochastic'' = PStr ''stochastic'' \<longrightarrow>
           stochastic_fits_of a fs = fit # others \<and> fit @ ''_offset'' \<notin> set (var_keys a)
           \<and> fit @ ''_beta'' \<notin> set (var_keys a) \<and> 0 < ad_n_obs a"
    using assms(8-11) by simp
  note d = velocity_complete [OF assms(1-7,12) ok body_def [unfolded p_def] assms(18)]
  have pp: "p = panels_per_gene ls True"
    by (simp add: p_def nplts_of_panels)
  from assms(2,13,14) have var: "var \<in> set (ad_var_names a)"
    by auto
  obtain ss us where mo: "moments var = (ss, us)"
    by (cases "moments var")
  with assms(15) have x: "x = spec_x (sl var) ss (ad_n_obs a)"
    by simp
  have own: "fst (body v var)
               = ScatterPhase (v * p) var fs
                   (if int v < int (length vars) - 1 then ''none'' else legend_loc)
                 # layer_panels ls skey p v var
                 @ ScatterXY pos var x (spec_y (sl var) (ul var) us 0 1 (ad_n_obs a))
                 # map (spec_fit_line a var pos xnew) (fit # others)"
    unfolding body_def assms(8)
    by (subst render_gene_stochastic [where moments = moments and sl = sl and ul = ul,
          OF var assms(4,5) refl assms(11,9,10) mo x refl
          assms(16) [unfolded p_def [symmetric]] assms(17)])
      simp
  have lines: "filter (is_line_at pos) (fst (body v var))
                 = map (spec_fit_line a var pos xnew) (fit # others)"
    unfolding own
    by (simp add: no_line_in_layer_panels all_lines_kept [simplified] spec_fit_line_def)
  have other: "filter (is_line_at pos) (fst (body i (vars ! i))) = []"
    if "i < length vars" and "i \<noteq> v" for i
  proof -
    have "\<not> is_line_at pos e" if e: "e \<in> set (fst (body i (vars ! i)))" for e
    proof
      assume "is_line_at pos e"
      then have q: "position e = pos" by (rule is_line_at_position)
      from e have "in_panel_of True p ls i e"
        using render_gene_in_panel [of e a moments "PStr ''stochastic''"]
        by (simp add: body_def)
      from in_panel_range [OF this pp] q
      have "i * p \<le> pos" and "pos < i * p + p" by simp_all
      moreover have "v * p \<le> pos" and "pos < v * p + p"
        using assms(16) pp by (simp_all add: p_def panels_per_gene_def)
      ultimately have "i = v" by (rule blocks_disjoint)
      with \<open>i \<noteq> v\<close> show False by simp
    qed
    then show ?thesis by (simp add: filter_empty_conv)
  qed
  from d have dr: "drawn out = concat (map (\<lambda>(v, var). fst (body v var)) (enumerate 0 vars))"
    by (simp add: p_def)
  have "filter (is_line_at pos) (drawn out)
          = concat (map (\<lambda>(i, g). filter (is_line_at pos) (fst (body i g))) (enumerate 0 vars))"
    by (simp add: dr filter_concat comp_def case_prod_unfold)
  also have "\<dots> = filter (is_line_at pos) (fst (body v (vars ! v)))"
    using assms(13) other
    by (intro concat_enumerate_single [where f = "\<lambda>i g. filter (is_line_at pos) (fst (body i g))"])
      auto
  finally have l: "filter (is_line_at pos) (drawn out)
                     = map (spec_fit_line a var pos xnew) (fit # others)"
    using lines assms(14) by simp
  from assms(13,14) have "(v, var) \<in> set (enumerate 0 vars)"
    by (simp add: in_set_enumerate_eq)
  moreover have "ScatterXY pos var x (spec_y (sl var) (ul var) us 0 1 (ad_n_obs a))
                   \<in> set (fst (body v var))"
    by (simp add: own)
  ultimately have "ScatterXY pos var x (spec_y (sl var) (ul var) us 0 1 (ad_n_obs a))
                     \<in> set (drawn out)"
    unfolding dr by force
  with d l mo show ?thesis by simp
qed

lemma dynamics_select:
  "select_var_names example_adata_dynamics example_rank (PList [''B'', ''A'']) PNone PNone
     = Inr [''B'', ''A'']"
  by (simp add: select_var_names_def candidate_var_names_def explicit_var_names_def
      pd_unique_def example_adata_dynamics_def)

lemma dynamics_genes: "set [''B'', ''A''] \<subseteq> set (ad_var_names example_adata_dynamics)"
  by (simp add: example_adata_dynamics_def)

lemma dynamics_phase_keys:
  "phase_keys example_adata_dynamics False = (''spliced'', ''unspliced'')"
  by (simp add: phase_keys_def layers_keys_def example_adata_dynamics_def)

lemma dynamics_spliced:
  "map_of (ad_layers example_adata_dynamics) ''spliced'' = Some (\<lambda>g i. real i + 1)"
  by (simp add: example_adata_dynamics_def)

lemma dynamics_unspliced:
  "map_of (ad_layers example_adata_dynamics) ''unspliced'' = Some (\<lambda>g i. 1)"
  by (simp add: example_adata_dynamics_def)

lemma dynamics_layers:
  "resolve_layers example_adata_dynamics ''velocity'' ''spliced'' (PStr ''all'')
     = Inr [''velocity'', ''spliced'']"
  by (simp add: resolve_layers_def layers_keys_def example_adata_dynamics_def)

lemma dynamics_fits:
  "resolve_fits example_adata_dynamics (PList [''velocity'', ''dynamics''])
     = Inr [''velocity'', ''dynamics'', ''dynamics'']"
  by (simp add: resolve_fits_def var_keys_def example_adata_dynamics_def)

lemma dynamics_stochastic_fits:
  "stochastic_fits_of example_adata_dynamics [''velocity'', ''dynamics'', ''dynamics'']
     = [''velocity'', ''dynamics'', ''dynamics'']"
  by (simp add: stochastic_fits_of_def layers_keys_def example_adata_dynamics_def)

lemma dynamics_no_offset_beta:
  "''velocity'' @ ''_offset'' \<notin> set (var_keys example_adata_dynamics)
   \<and> ''velocity'' @ ''_beta'' \<notin> set (var_keys example_adata_dynamics)
   \<and> 0 < ad_n_obs example_adata_dynamics"
  by (simp add: var_keys_def example_adata_dynamics_def)

lemma dynamics_parameters:
  "fit_parameter example_adata_dynamics (''velocity'' @ ''_gamma'') ''A'' 1 = 2
   \<and> fit_parameter example_adata_dynamics (''velocity'' @ ''_beta'') ''A'' 1 = 1
   \<and> fit_parameter example_adata_dynamics (''velocity'' @ ''_offset2'') ''A'' 0 = 0
   \<and> fit_parameter example_adata_dynamics (''dynamics'' @ ''_gamma'') ''A'' 1 = 3
   \<and> fit_parameter example_adata_dynamics (''dynamics'' @ ''_beta'') ''A'' 1 = 4
   \<and> fit_parameter example_adata_dynamics (''dynamics'' @ ''_offset2'') ''A'' 0 = 8"
  by (simp add: fit_parameter_def example_adata_dynamics_def)

lemma dynamics_x:
  "spec_x ((\<lambda>g i. real i + 1) ''A'') (fst (example_moments ''A''))
     (ad_n_obs example_adata_dynamics) = [- 1, - 8]"
  by (simp add: spec_x_def example_moments_def example_adata_dynamics_def upt_conv_Cons)

lemma dynamics_position:
  "1 * nplts_of [''velocity'', ''spliced''] (PStr ''stochastic'')
     + length [''velocity'', ''spliced''] + 1 = 8"
  by (simp add: nplts_of_def)

lemma example_ncols: "0 < ncols_or_default None"
  by (simp add: ncols_or_default_def)

text \<open>
  C7, as stated, fails: the resolved fit names hold \<open>"dynamics"\<close> twice (C3), so with a
  variance layer for both fits of the default call the panel of a gene gets three lines
  for its two stochastic-capable fits, the line of \<open>"dynamics"\<close> twice.
\<close>

theorem three_lines_for_two_fits:
  "filter (is_line_at 8)
     (drawn (velocity example_adata_dynamics example_rank example_moments (PList [''B'', ''A''])
        ''velocity'' (PStr ''stochastic'') (PList [''velocity'', ''dynamics'']) (PStr ''all'')
        PNone PNone ''none'' False None))
     = [PlotLine 8 (linspace (- 8) (- 1.02)) (spec_line 2 1 0 (linspace (- 8) (- 1.02))),
        PlotLine 8 (linspace (- 8) (- 1.02)) (spec_line 3 4 8 (linspace (- 8) (- 1.02))),
        PlotLine 8 (linspace (- 8) (- 1.02)) (spec_line 3 4 8 (linspace (- 8) (- 1.02)))]
   \<and> remdups (stochastic_fits_of example_adata_dynamics [''velocity'', ''dynamics'', ''dynamics''])
       = [''velocity'', ''dynamics'']"
proof -
  have v: "(1::nat) < length [''B'', ''A'']" and g: "''A'' = [''B'', ''A''] ! 1"
    by simp_all
  note l = stochastic_lines [where moments = example_moments and sl = "\<lambda>g i. real i + 1"
        and ul = "\<lambda>g i. 1" and legend_loc = "''none''",
        OF dynamics_select dynamics_genes dynamics_phase_keys dynamics_spliced
        dynamics_unspliced dynamics_layers dynamics_fits dynamics_stochastic_fits
        dynamics_no_offset_beta [THEN conjunct1]
        dynamics_no_offset_beta [THEN conjunct2, THEN conjunct1]
        dynamics_no_offset_beta [THEN conjunct2, THEN conjunct2]
        example_ncols v g refl refl refl refl, unfolded dynamics_position dynamics_x]
  from l dynamics_parameters show ?thesis
    by (simp add: spec_fit_line_def dynamics_stochastic_fits)
qed

text \<open>
  C7, amended: in stochastic mode, for a call whose selected genes are genes of the
  dataset, whose two abundance layers exist, with at least one cell and a first
  stochastic-capable fit that has no offset and no beta column, the call completes and the
  dashed lines drawn in the stochastic panel of a gene are, in order, one for every entry
  of the stochastic-capable fit list (a name that the list holds twice gets two lines):
  \<open>y = (gamma / beta) * x + offset2 / beta\<close> with the per-gene parameters of that fit
  (fallbacks 1, 1 and 0), over 50 samples from \<open>min(x)\<close> to \<open>1.02 * max(x)\<close> of the
  corrected \<open>x\<close> coordinates. A zero \<open>beta\<close> is excluded: numpy then gives infinities,
  which the reals do not have.
\<close>

theorem fit_lines_drawn:
  assumes "select_var_names a rank var_names groupby groups = Inr vars"
    and "set vars \<subseteq> set (ad_var_names a)"
    and "phase_keys a use_raw = (skey, ukey)"
    and "map_of (ad_layers a) skey = Some sl" and "map_of (ad_layers a) ukey = Some ul"
    and "resolve_layers a vkey skey layers = Inr ls"
    and "resolve_fits a fits = Inr fs"
    and "stochastic_fits_of a fs = fit # others"
    and "fit @ ''_offset'' \<notin> set (var_keys a)" and "fit @ ''_beta'' \<notin> set (var_keys a)"
    and "0 < ad_n_obs a" and "0 < ncols_or_default ncols"
    and "v < length vars" and "var = vars ! v"
    and "x = spec_x (sl var) (fst (moments var)) (ad_n_obs a)"
    and "pos = v * nplts_of ls (PStr ''stochastic'') + length ls + 1"
    and "xnew = linspace (Min (set x)) (Max (set x) * 1.02)"
    and "out = velocity a rank moments var_names vkey (PStr ''stochastic'') fits layers groupby
                 groups legend_loc use_raw ncols"
    and "\<forall>f \<in> set (fit # others). fit_parameter a (f @ ''_beta'') var 1 \<noteq> 0"
  shows "raised out = None
       \<and> filter (is_line_at pos) (drawn out)
           = map (\<lambda>f. PlotLine pos xnew
                   (spec_line (fit_parameter a (f @ ''_gamma'') var 1)
                      (fit_parameter a (f @ ''_beta'') var 1)
                      (fit_parameter a (f @ ''_offset2'') var 0) xnew))
               (fit # others)
       \<and> length xnew = 50 \<and> hd xnew = Min (set x) \<and> last xnew = Max (set x) * 1.02"
  using stochastic_lines [OF assms(1-18)] linspace_ends [of "Min (set x)" "Max (set x) * 1.02"]
    assms(17)
  by (simp add: spec_fit_line_def [abs_def])

theorem fit_lines_drawn_witness:
  "stochastic_fits_of example_adata_dynamics [''velocity'', ''dynamics'', ''dynamics'']
     = [''velocity'', ''dynamics'', ''dynamics'']
   \<and> ''velocity'' @ ''_offset'' \<notin> set (var_keys example_adata_dynamics)
   \<and> ''velocity'' @ ''_beta'' \<notin> set (var_keys example_adata_dynamics)
   \<and> fit_parameter example_adata_dynamics (''dynamics'' @ ''_beta'') ''A'' 1 = 4
   \<and> raised (velocity example_adata_dynamics example_rank example_moments
        (PList [''B'', ''A'']) ''velocity'' (PStr ''stochastic'')
        (PList [''velocity'', ''dynamics'']) (PStr ''all'') PNone PNone ''none'' False None)
       = None
   \<and> filter (is_line_at 8)
        (drawn (velocity example_adata_dynamics example_rank example_moments
          (PList [''B'', ''A'']) ''velocity'' (PStr ''stochastic'')
          (PList [''velocity'', ''dynamics'']) (PStr ''all'') PNone PNone ''none'' False None))
       = [PlotLine 8 (linspace (- 8) (- 1.02)) (spec_line 2 1 0 (linspace (- 8) (- 1.02))),
          PlotLine 8 (linspace (- 8) (- 1.02)) (spec_line 3 4 8 (linspace (- 8) (- 1.02))),
          PlotLine 8 (linspace (- 8) (- 1.02)) (spec_line 3 4 8 (linspace (- 8) (- 1.02)))]
   \<and> hd (linspace (- 8) (- 1.02)) = - 8 \<and> last (linspace (- 8) (- 1.02)) = - 1.02"
proof -
  have v: "(1::nat) < length [''B'', ''A'']" and g: "''A'' = [''B'', ''A''] ! 1"
    by simp_all
  have b: "\<forall>f \<in> set (''velocity'' # [''dynamics'', ''dynamics'']).
             fit_parameter example_adata_dynamics (f @ ''_beta'') ''A'' 1 \<noteq> 0"
    using dynamics_parameters by simp
  note l = fit_lines_drawn [where moments = example_moments and sl = "\<lambda>g i. real i + 1"
        and ul = "\<lambda>g i. 1" and legend_loc = "''none''",
        OF dynamics_select dynamics_genes dynamics_phase_keys dynamics_spliced
        dynamics_unspliced dynamics_layers dynamics_fits dynamics_stochastic_fits
        dynamics_no_offset_beta [THEN conjunct1]
        dynamics_no_offset_beta [THEN conjunct2, THEN conjunct1]
        dynamics_no_offset_beta [THEN conjunct2, THEN conjunct2]
        example_ncols v g refl refl refl refl b, unfolded dynamics_position dynamics_x]
  from l dynamics_parameters dynamics_stochastic_fits dynamics_no_offset_beta show ?thesis
    by simp
qed

subsection \<open>The corrected coordinates\<close>

lemma offset_select:
  "select_var_names example_adata_offset example_rank (PList [''B'', ''A'']) PNone PNone
     = Inr [''B'', ''A'']"
  by (simp add: select_var_names_def candidate_var_names_def explicit_var_names_def
      pd_unique_def example_adata_offset_def)

lemma offset_phase_keys:
  "phase_keys example_adata_offset False = (''spliced'', ''unspliced'')"
  by (simp add: phase_keys_def layers_keys_def example_adata_offset_def)

lemma offset_spliced: "map_of (ad_layers example_adata_offset) ''spliced'' = Some (\<lambda>g i. 1)"
  by (simp add: example_adata_offset_def)

lemma offset_unspliced: "map_of (ad_layers example_adata_offset) ''unspliced'' = Some (\<lambda>g i. 1)"
  by (simp add: example_adata_offset_def)

lemma offset_layers:
  "resolve_layers example_adata_offset ''velocity'' ''spliced'' (PStr ''all'')
     = Inr [''velocity'', ''spliced'']"
  by (simp add: resolve_layers_def layers_keys_def example_adata_offset_def)

lemma offset_fits:
  "resolve_fits example_adata_offset (PList [''velocity'', ''dynamics''])
     = Inr [''velocity'', ''dynamics'', ''dynamics'']"
  by (simp add: resolve_fits_def var_keys_def example_adata_offset_def)

lemma offset_stochastic_fits:
  "stochastic_fits_of example_adata_offset [''velocity'', ''dynamics'', ''dynamics'']
     = [''velocity'']"
  by (simp add: stochastic_fits_of_def layers_keys_def example_adata_offset_def)

text \<open>
  C5, on the code: lines 144 and 145 read \<open>offset\<close> and \<open>beta\<close> without \<open>.values\<close>, which
  lines 155 to 157 use. When the first stochastic-capable fit has an offset or a beta
  column and there are two or more cells, line 147 raises \<open>ValueError\<close>: after the phase
  portrait and the layer panels of the first gene the call ends, and no corrected
  coordinates are shown, where the claim computes \<open>y\<close> with the parameters of the fit.
\<close>

theorem present_offset_or_beta_raises:
  assumes "select_var_names a rank var_names groupby groups = Inr (var # rest)"
    and "var \<in> set (ad_var_names a)"
    and "phase_keys a use_raw = (skey, ukey)"
    and "map_of (ad_layers a) skey = Some sl" and "map_of (ad_layers a) ukey = Some ul"
    and "resolve_layers a vkey skey layers = Inr ls"
    and "resolve_fits a fits = Inr fs"
    and "stochastic_fits_of a fs = fit # others"
    and "fit @ ''_offset'' \<in> set (var_keys a) \<or> fit @ ''_beta'' \<in> set (var_keys a)"
    and "2 \<le> ad_n_obs a"
    and "0 < ncols_or_default ncols"
    and "out = velocity a rank moments var_names vkey (PStr ''stochastic'') fits layers groupby
                 groups legend_loc use_raw ncols"
  shows "raised out = Some (ValueError series_length_mismatch)
       \<and> drawn out
           = ScatterPhase 0 var fs (if int 0 < int (length (var # rest)) - 1 then ''none''
                                     else legend_loc)
             # layer_panels ls skey (nplts_of ls (PStr ''stochastic'')) 0 var"
proof -
  define body where
    "body = render_gene a moments (PStr ''stochastic'') legend_loc skey ukey ls fs
              (stochastic_fits_of a fs) (nplts_of ls (PStr ''stochastic'')) (length (var # rest))"
  have b: "body 0 var
             = (ScatterPhase 0 var fs (if int 0 < int (length (var # rest)) - 1 then ''none''
                                       else legend_loc)
                # layer_panels ls skey (nplts_of ls (PStr ''stochastic'')) 0 var,
                Some (ValueError series_length_mismatch))"
    unfolding body_def render_gene_def layer_lookup_present [OF assms(4)]
      layer_lookup_present [OF assms(5)]
    using assms(2,8)
    by (simp add: stochastic_panel_def Let_def stochastic_xy_series [OF assms(9,10)])
  then have "render_genes body 0 (var # rest) = body 0 var"
    by simp
  with velocity_rendered [OF assms(1,3,6,7,11) body_def] assms(12) b
  show ?thesis
    by simp
qed

theorem present_offset_or_beta_raises_witness:
  "stochastic_fits_of example_adata_offset [''velocity'', ''dynamics'', ''dynamics'']
     = [''velocity'']
   \<and> ''velocity'' @ ''_offset'' \<in> set (var_keys example_adata_offset)
   \<and> 2 \<le> ad_n_obs example_adata_offset
   \<and> velocity example_adata_offset example_rank example_moments (PList [''B'', ''A''])
        ''velocity'' (PStr ''stochastic'') (PList [''velocity'', ''dynamics'']) (PStr ''all'')
        PNone PNone ''none'' False None
       = \<lparr>grid = Some (2, 5),
          drawn = [ScatterPhase 0 ''B'' [''velocity'', ''dynamics'', ''dynamics''] ''none'',
                   ScatterLayer 1 ''B'' ''velocity'' ''velocity'',
                   ScatterLayer 2 ''B'' ''spliced'' ''expression''],
          raised = Some (ValueError series_length_mismatch)\<rparr>"
proof -
  have b: "''B'' \<in> set (ad_var_names example_adata_offset)"
    by (simp add: example_adata_offset_def)
  have k: "''velocity'' @ ''_offset'' \<in> set (var_keys example_adata_offset)
           \<or> ''velocity'' @ ''_beta'' \<in> set (var_keys example_adata_offset)"
    and k': "''velocity'' @ ''_offset'' \<in> set (var_keys example_adata_offset)"
    and n: "2 \<le> ad_n_obs example_adata_offset"
    by (simp_all add: var_keys_def example_adata_offset_def)
  define out where
    "out = velocity example_adata_offset example_rank example_moments (PList [''B'', ''A''])
        ''velocity'' (PStr ''stochastic'') (PList [''velocity'', ''dynamics'']) (PStr ''all'')
        PNone PNone ''none'' False None"
  have g: "grid out = Some (2, 5)"
    unfolding out_def
    using velocity_rendered [OF offset_select offset_phase_keys offset_layers offset_fits
        example_ncols refl, where moments = example_moments and mode = "PStr ''stochastic''"
        and legend_loc = "''none''"]
    by (simp add: nplts_of_def ncols_or_default_def)
  from present_offset_or_beta_raises [where moments = example_moments and sl = "\<lambda>g i. 1"
        and ul = "\<lambda>g i. 1" and legend_loc = "''none''",
        OF offset_select b offset_phase_keys offset_spliced offset_unspliced
        offset_layers offset_fits offset_stochastic_fits k n example_ncols out_def]
  have "raised out = Some (ValueError series_length_mismatch)
      \<and> drawn out = [ScatterPhase 0 ''B'' [''velocity'', ''dynamics'', ''dynamics''] ''none'',
                   ScatterLayer 1 ''B'' ''velocity'' ''velocity'',
                   ScatterLayer 2 ''B'' ''spliced'' ''expression'']"
    by (simp add: layer_panels_def nplts_of_def enumerate_eq_zip upt_conv_Cons)
  with g have "out = \<lparr>grid = Some (2, 5),
          drawn = [ScatterPhase 0 ''B'' [''velocity'', ''dynamics'', ''dynamics''] ''none'',
                   ScatterLayer 1 ''B'' ''velocity'' ''velocity'',
                   ScatterLayer 2 ''B'' ''spliced'' ''expression''],
          raised = Some (ValueError series_length_mismatch)\<rparr>"
    by (cases out) simp
  with offset_stochastic_fits k' n show ?thesis
    by (simp add: out_def)
qed

subsection \<open>No stochastic-capable fit\<close>

lemma example_select:
  "select_var_names example_adata example_rank (PList [''B'', ''A'']) PNone PNone
     = Inr [''B'', ''A'']"
  by (simp add: select_var_names_def candidate_var_names_def explicit_var_names_def
      pd_unique_def example_adata_def)

text \<open>
  C4, on the code: in stochastic mode with no stochastic-capable fit, the panel count of a
  gene is unchanged and no line is drawn, but the call does not complete: after the phase
  portrait and the layer panels of the first gene, \<open>stochastic_fits[0]\<close> (line 141)
  raises \<open>IndexError\<close>.
\<close>

theorem stochastic_without_capable_fit:
  assumes "select_var_names a rank var_names groupby groups = Inr (var # rest)"
    and "var \<in> set (ad_var_names a)"
    and "phase_keys a use_raw = (skey, ukey)"
    and "map_of (ad_layers a) skey = Some sl" and "map_of (ad_layers a) ukey = Some ul"
    and "resolve_layers a vkey skey layers = Inr ls"
    and "resolve_fits a fits = Inr fs"
    and "stochastic_fits_of a fs = []"
    and "0 < ncols_or_default ncols"
    and "out = velocity a rank moments var_names vkey (PStr ''stochastic'') fits layers groupby
                 groups legend_loc use_raw ncols"
  shows "raised out = Some IndexError
       \<and> drawn out
           = ScatterPhase 0 var fs (if int 0 < int (length (var # rest)) - 1 then ''none''
                                     else legend_loc)
             # layer_panels ls skey (nplts_of ls (PStr ''stochastic'')) 0 var
       \<and> filter (is_line_at (length ls + 1)) (drawn out) = []
       \<and> nplts_of ls (PStr ''stochastic'') = 1 + length ls + 2"
proof -
  define body where
    "body = render_gene a moments (PStr ''stochastic'') legend_loc skey ukey ls fs
              (stochastic_fits_of a fs) (nplts_of ls (PStr ''stochastic'')) (length (var # rest))"
  have b: "body 0 var
             = (ScatterPhase 0 var fs (if int 0 < int (length (var # rest)) - 1 then ''none''
                                       else legend_loc)
                # layer_panels ls skey (nplts_of ls (PStr ''stochastic'')) 0 var,
                Some IndexError)"
    unfolding body_def render_gene_def layer_lookup_present [OF assms(4)]
      layer_lookup_present [OF assms(5)]
    using assms(2,8) by (simp add: stochastic_panel_def Let_def)
  then have "render_genes body 0 (var # rest) = body 0 var"
    by simp
  with velocity_rendered [OF assms(1,3,6,7,9) body_def] assms(10) b
  show ?thesis
    by (simp add: no_line_in_layer_panels nplts_of_def)
qed

theorem stochastic_without_capable_fit_witness:
  "select_var_names example_adata example_rank (PList [''B'', ''A'']) PNone PNone
     = Inr [''B'', ''A'']
   \<and> resolve_fits example_adata (PList [''dynamics'']) = Inr [''dynamics'', ''dynamics'']
   \<and> stochastic_fits_of example_adata [''dynamics'', ''dynamics''] = []
   \<and> velocity example_adata example_rank example_moments (PList [''B'', ''A''])
        ''velocity'' (PStr ''stochastic'') (PList [''dynamics'']) (PStr ''all'')
        PNone PNone ''none'' False None
       = \<lparr>grid = Some (2, 5),
          drawn = [ScatterPhase 0 ''B'' [''dynamics'', ''dynamics''] ''none'',
                   ScatterLayer 1 ''B'' ''velocity'' ''velocity'',
                   ScatterLayer 2 ''B'' ''spliced'' ''expression''],
          raised = Some IndexError\<rparr>"
proof -
  have f: "resolve_fits example_adata (PList [''dynamics'']) = Inr [''dynamics'', ''dynamics'']"
    by (simp add: resolve_fits_def var_keys_def example_adata_def)
  have s: "stochastic_fits_of example_adata [''dynamics'', ''dynamics''] = []"
    by (simp add: stochastic_fits_of_def layers_keys_def example_adata_def)
  have b: "''B'' \<in> set (ad_var_names example_adata)"
    by (simp add: example_adata_def)
  define out where
    "out = velocity example_adata example_rank example_moments (PList [''B'', ''A''])
        ''velocity'' (PStr ''stochastic'') (PList [''dynamics'']) (PStr ''all'')
        PNone PNone ''none'' False None"
  have g: "grid out = Some (2, 5)"
    unfolding out_def
    using velocity_rendered [OF example_select example_phase_keys example_layers f example_ncols
        refl, where moments = example_moments and mode = "PStr ''stochastic''"
        and legend_loc = "''none''"]
    by (simp add: nplts_of_def ncols_or_default_def)
  from stochastic_without_capable_fit [where moments = example_moments and sl = "\<lambda>g i. 1"
        and ul = "\<lambda>g i. 1" and legend_loc = "''none''",
        OF example_select b example_phase_keys example_spliced example_unspliced
        example_layers f s example_ncols out_def]
  have "raised out = Some IndexError
      \<and> drawn out = [ScatterPhase 0 ''B'' [''dynamics'', ''dynamics''] ''none'',
                   ScatterLayer 1 ''B'' ''velocity'' ''velocity'',
                   ScatterLayer 2 ''B'' ''spliced'' ''expression'']"
    by (simp add: layer_panels_def nplts_of_def enumerate_eq_zip upt_conv_Cons)
  with g have "out = \<lparr>grid = Some (2, 5),
          drawn = [ScatterPhase 0 ''B'' [''dynamics'', ''dynamics''] ''none'',
                   ScatterLayer 1 ''B'' ''velocity'' ''velocity'',
                   ScatterLayer 2 ''B'' ''spliced'' ''expression''],
          raised = Some IndexError\<rparr>"
    by (cases out) simp
  with example_select f s show ?thesis
    by (simp add: out_def)
qed

end
